theory Spec2Isabelle
  imports Main "HOL-Library.Word"
begin

section \<open>JavaScript values\<close>

text \<open>
  The values that reach \<^verbatim>\<open>server.js\<close>: request bodies parsed by
  \<^verbatim>\<open>express.json()\<close> and upstream payloads parsed by \<^verbatim>\<open>JSON.parse\<close>,
  together with \<^verbatim>\<open>undefined\<close>, which property reads produce. An object is the
  list of its own properties (keys distinct, in insertion order). The program
  never computes with a number: it only tests one for truth, asks its type and converts
  it to a string. A number is therefore represented by the string that
  \<^verbatim>\<open>Number.prototype.toString\<close> gives for it (\<^verbatim>\<open>"0"\<close> for both zeros,
  \<^verbatim>\<open>"1e+21"\<close>, \<^verbatim>\<open>"0.5"\<close>, \<^verbatim>\<open>"Infinity"\<close>), which tells any two numbers apart.
\<close>

datatype json =
    JUndefined
  | JNull
  | JBool bool
  | JNum string
  | JStr string
  | JArr "json list"
  | JObj "(string \<times> json) list"

text \<open>
  A thrown \<^verbatim>\<open>Error\<close>: its \<^verbatim>\<open>message\<close>, and the \<^verbatim>\<open>status\<close> and
  \<^verbatim>\<open>data\<close> properties that \<^verbatim>\<open>openAI\<close> attaches (\<open>None\<close> when the
  property was never assigned, so that reading it gives \<^verbatim>\<open>undefined\<close>).
\<close>

record js_error =
  err_message :: string
  err_status :: "nat option"
  err_data :: "json option"

definition plain_error :: "string \<Rightarrow> js_error" where
  "plain_error msg = \<lparr>err_message = msg, err_status = None, err_data = None\<rparr>"

text \<open>The \<^verbatim>\<open>TypeError\<close>s of the engine (V8's wording); they carry no status and no data.\<close>

definition type_error_read :: "json \<Rightarrow> string \<Rightarrow> js_error" where
  "type_error_read v k =
     plain_error (''Cannot read properties of ''
        @ (if v = JNull then ''null'' else ''undefined'')
        @ '' (reading '' @ [CHR 39] @ k @ [CHR 39] @ '')'')"

definition type_error_primitive :: js_error where
  "type_error_primitive = plain_error ''Cannot convert object to primitive value''"

definition nullish :: "json \<Rightarrow> bool" where
  "nullish v \<longleftrightarrow> v = JUndefined \<or> v = JNull"

text \<open>\<^verbatim>\<open>ToBoolean\<close>: what \<^verbatim>\<open>!v\<close>, \<^verbatim>\<open>a || b\<close>, \<^verbatim>\<open>a && b\<close> and \<^verbatim>\<open>find\<close> test.\<close>

fun truthy :: "json \<Rightarrow> bool" where
  "truthy JUndefined = False"
| "truthy JNull = False"
| "truthy (JBool b) = b"
| "truthy (JNum n) = (n \<noteq> ''0'' \<and> n \<noteq> ''NaN'')"
| "truthy (JStr s) = (s \<noteq> [])"
| "truthy (JArr xs) = True"
| "truthy (JObj kvs) = True"

fun typeof_js :: "json \<Rightarrow> string" where
  "typeof_js JUndefined = ''undefined''"
| "typeof_js JNull = ''object''"
| "typeof_js (JBool b) = ''boolean''"
| "typeof_js (JNum n) = ''number''"
| "typeof_js (JStr s) = ''string''"
| "typeof_js (JArr xs) = ''object''"
| "typeof_js (JObj kvs) = ''object''"

text \<open>
  \<^verbatim>\<open>v.k\<close>, for the property names this program reads (\<^verbatim>\<open>data\<close>, \<^verbatim>\<open>role\<close>,
  \<^verbatim>\<open>content\<close>, \<^verbatim>\<open>type\<close>, \<^verbatim>\<open>text\<close>, \<^verbatim>\<open>value\<close>, \<^verbatim>\<open>status\<close>,
  \<^verbatim>\<open>last_error\<close>, \<^verbatim>\<open>message\<close>, \<^verbatim>\<open>error\<close>, \<^verbatim>\<open>id\<close>, \<^verbatim>\<open>threadId\<close>): none of
  them is defined on the prototype of an object, array, string, number or boolean, so
  only an object's own property can answer. Reading from \<^verbatim>\<open>null\<close> or
  \<^verbatim>\<open>undefined\<close> throws.
\<close>

fun get_prop :: "json \<Rightarrow> string \<Rightarrow> js_error + json" where
  "get_prop JUndefined k = Inl (type_error_read JUndefined k)"
| "get_prop JNull k = Inl (type_error_read JNull k)"
| "get_prop (JObj kvs) k = Inr (case map_of kvs k of None \<Rightarrow> JUndefined | Some v \<Rightarrow> v)"
| "get_prop v k = Inr JUndefined"

text \<open>\<^verbatim>\<open>v?.k\<close>: \<^verbatim>\<open>undefined\<close> on a nullish \<open>v\<close>, so it never throws.\<close>

fun opt_prop :: "json \<Rightarrow> string \<Rightarrow> json" where
  "opt_prop (JObj kvs) k = (case map_of kvs k of None \<Rightarrow> JUndefined | Some v \<Rightarrow> v)"
| "opt_prop v k = JUndefined"

definition or_js :: "json \<Rightarrow> json \<Rightarrow> json" where
  "or_js a b = (if truthy a then a else b)"

definition nullish_coalesce :: "json \<Rightarrow> json \<Rightarrow> json" where
  "nullish_coalesce a b = (if nullish a then b else a)"

text \<open>\<^verbatim>\<open>Array.isArray(v) ? v : []\<close>.\<close>

fun array_or_empty :: "json \<Rightarrow> json list" where
  "array_or_empty (JArr xs) = xs"
| "array_or_empty v = []"

text \<open>
  \<^verbatim>\<open>Array.prototype.find\<close> with a callback that may throw: the first element
  for which the callback's value is truthy, \<^verbatim>\<open>undefined\<close> when there is none.
\<close>

fun find_js :: "(json \<Rightarrow> js_error + json) \<Rightarrow> json list \<Rightarrow> js_error + json" where
  "find_js p [] = Inr JUndefined"
| "find_js p (x # xs) =
     (case p x of
        Inl e \<Rightarrow> Inl e
      | Inr r \<Rightarrow> if truthy r then Inr x else find_js p xs)"

subsection \<open>Conversion to string\<close>

text \<open>
  Plain decimal digits, for the two numbers the program itself puts into a template
  literal: a response status, which is below 65536, and the limit 20 of the listing.
\<close>

fun show_nat :: "nat \<Rightarrow> string" where
  "show_nat n =
     (if n < 10 then [''0123456789'' ! n]
      else show_nat (n div 10) @ [''0123456789'' ! (n mod 10)])"

declare show_nat.simps [simp del]

fun join_comma :: "string list \<Rightarrow> string" where
  "join_comma [] = []"
| "join_comma [s] = s"
| "join_comma (s # t # ss) = s @ '','' @ join_comma (t # ss)"

fun collect :: "(js_error + 'a) list \<Rightarrow> js_error + 'a list" where
  "collect [] = Inr []"
| "collect (Inl e # rs) = Inl e"
| "collect (Inr x # rs) = (case collect rs of Inl e \<Rightarrow> Inl e | Inr xs \<Rightarrow> Inr (x # xs))"

text \<open>
  \<^verbatim>\<open>ToString\<close>, which a template literal and \<^verbatim>\<open>new Error(v)\<close> apply. An array is
  joined with commas, its nullish elements as empty strings. A parsed object has only
  data properties: an own \<^verbatim>\<open>toString\<close> hides \<^verbatim>\<open>Object.prototype.toString\<close> and is
  not callable, \<^verbatim>\<open>valueOf\<close> gives no primitive, and the conversion throws.
\<close>

fun ToString :: "json \<Rightarrow> js_error + string" where
  "ToString JUndefined = Inr ''undefined''"
| "ToString JNull = Inr ''null''"
| "ToString (JBool b) = Inr (if b then ''true'' else ''false'')"
| "ToString (JNum n) = Inr n"
| "ToString (JStr s) = Inr s"
| "ToString (JArr xs) =
     (case collect (map (\<lambda>x. if nullish x then Inr [] else ToString x) xs) of
        Inl e \<Rightarrow> Inl e
      | Inr ss \<Rightarrow> Inr (join_comma ss))"
| "ToString (JObj kvs) =
     (if map_of kvs ''toString'' \<noteq> None then Inl type_error_primitive
      else Inr ''[object Object]'')"

text \<open>
  \<^verbatim>\<open>new Error(v)\<close> for a \<open>v\<close> that is not \<^verbatim>\<open>undefined\<close>: the message is
  \<^verbatim>\<open>ToString(v)\<close>; \<open>Inl\<close> is the \<^verbatim>\<open>TypeError\<close> thrown instead when the
  conversion fails.
\<close>

definition new_Error :: "json \<Rightarrow> js_error + js_error" where
  "new_Error v = (case ToString v of Inl e \<Rightarrow> Inl e | Inr s \<Rightarrow> Inr (plain_error s))"

text \<open>\<^verbatim>\<open>throw new Error(v)\<close>: either way an error is thrown.\<close>

definition throw_new_Error :: "json \<Rightarrow> js_error + 'a" where
  "throw_new_Error v = (case new_Error v of Inl e \<Rightarrow> Inl e | Inr err \<Rightarrow> Inl err)"

section \<open>The upstream service\<close>

record request =
  req_url :: string
  req_method :: string
  req_headers :: "(string \<times> string) list"
  req_body :: "json option"

text \<open>
  What \<^verbatim>\<open>await res.text()\<close> gives, seen through lines 36 to 38: the empty text,
  a text that \<^verbatim>\<open>JSON.parse\<close> accepts (with the parsed value), or a text that it
  rejects.
\<close>

datatype body_text = Empty | Json json | Unparseable string

text \<open>
  The outcome of one \<^verbatim>\<open>fetch\<close>: the promise rejects (or \<^verbatim>\<open>res.text()\<close> does)
  with an error of the given message, or a response arrives with its status and text.
  \<^verbatim>\<open>Response.status\<close> is an \<^verbatim>\<open>unsigned short\<close>, a 16-bit word.
\<close>

datatype fetch_result = Rejected string | Response "16 word" body_text

text \<open>
  The process configuration and the upstream. The upstream answers a request knowing
  the requests made before it; the list of requests made so far is the only state the
  relay's effects touch.
\<close>

record env =
  OPENAI_API_KEY :: string
  ASSISTANT_ID :: string
  upstream :: "request list \<Rightarrow> request \<Rightarrow> fetch_result"

type_synonym 'a io = "request list \<Rightarrow> (js_error + 'a) \<times> request list"

definition return_io :: "'a \<Rightarrow> 'a io" where
  "return_io x log = (Inr x, log)"

definition lift_io :: "js_error + 'a \<Rightarrow> 'a io" where
  "lift_io r log = (r, log)"

text \<open>\<^verbatim>\<open>await\<close> in sequence: a rejection skips the rest.\<close>

definition bind_io :: "'a io \<Rightarrow> ('a \<Rightarrow> 'b io) \<Rightarrow> 'b io" where
  "bind_io m f log =
     (case m log of
        (Inl e, log') \<Rightarrow> (Inl e, log')
      | (Inr x, log') \<Rightarrow> f x log')"

definition OPENAI_BASE :: string where
  "OPENAI_BASE = ''https://api.openai.com/v1''"

definition openAIHeaders :: "env \<Rightarrow> bool \<Rightarrow> bool \<Rightarrow> (string \<times> string) list" where
  "openAIHeaders env beta json =
     [(''Authorization'', ''Bearer '' @ OPENAI_API_KEY env)]
     @ (if json then [(''Content-Type'', ''application/json'')] else [])
     @ (if beta then [(''OpenAI-Beta'', ''assistants=v2'')] else [])"

definition openAI_request :: "env \<Rightarrow> string \<Rightarrow> string \<Rightarrow> json option \<Rightarrow> bool \<Rightarrow> request" where
  "openAI_request env path method body beta =
     \<lparr>req_url = OPENAI_BASE @ path, req_method = method,
      req_headers = openAIHeaders env beta (body \<noteq> None), req_body = body\<rparr>"

text \<open>\<^verbatim>\<open>res.ok\<close>: the status is in the range 200 to 299.\<close>

definition res_ok :: "16 word \<Rightarrow> bool" where
  "res_ok st \<longleftrightarrow> 200 \<le> st \<and> st \<le> 299"

definition parse_body :: "body_text \<Rightarrow> json" where
  "parse_body t =
     (case t of
        Empty \<Rightarrow> JObj []
      | Json v \<Rightarrow> v
      | Unparseable s \<Rightarrow> JObj [(''raw'', JStr s)])"

text \<open>
  \<^verbatim>\<open>openAI(path, { method, body, beta })\<close>. Every caller passes \<^verbatim>\<open>method\<close> and
  \<^verbatim>\<open>beta\<close>; \<open>body\<close> is \<open>None\<close> where the caller passes none, and otherwise the
  value handed to \<^verbatim>\<open>JSON.stringify\<close>. One call sends one request, whatever comes back.
\<close>

definition openAI :: "env \<Rightarrow> string \<Rightarrow> string \<Rightarrow> json option \<Rightarrow> bool \<Rightarrow> json io" where
  "openAI env path method body beta log =
     (let req = openAI_request env path method body beta in
      case upstream env log req of
        Rejected m \<Rightarrow> (Inl (plain_error m), log @ [req])
      | Response st t \<Rightarrow>
          (let data = parse_body t in
           if \<not> res_ok st then
             (let msg = or_js (opt_prop (opt_prop data ''error'') ''message'')
                          (JStr (''OpenAI request failed ('' @ show_nat (unat st) @ '')''))
              in case new_Error msg of
                   Inl e \<Rightarrow> (Inl e, log @ [req])
                 | Inr err \<Rightarrow>
                     (Inl (err\<lparr>err_status := Some (unat st), err_data := Some data\<rparr>),
                      log @ [req]))
           else (Inr data, log @ [req])))"

section \<open>Conversation operations\<close>

text \<open>
  A path is a template literal over the thread id, so building it converts the id to a
  string first; a conversion that throws rejects the call before any request is sent.
\<close>

definition createThread :: "env \<Rightarrow> json io" where
  "createThread env = openAI env ''/threads'' ''POST'' (Some (JObj [])) True"

definition addUserMessage :: "env \<Rightarrow> json \<Rightarrow> json \<Rightarrow> json io" where
  "addUserMessage env threadId text =
     bind_io (lift_io (ToString threadId)) (\<lambda>tid.
       openAI env (''/threads/'' @ tid @ ''/messages'') ''POST''
         (Some (JObj [(''role'', JStr ''user''),
                      (''content'', JArr [JObj [(''type'', JStr ''text''), (''text'', text)]])]))
         True)"

definition createRun :: "env \<Rightarrow> json \<Rightarrow> json io" where
  "createRun env threadId =
     bind_io (lift_io (ToString threadId)) (\<lambda>tid.
       openAI env (''/threads/'' @ tid @ ''/runs'') ''POST''
         (Some (JObj [(''assistant_id'', JStr (ASSISTANT_ID env))])) True)"

definition getRun :: "env \<Rightarrow> json \<Rightarrow> json \<Rightarrow> json io" where
  "getRun env threadId runId =
     bind_io (lift_io (ToString threadId)) (\<lambda>tid.
     bind_io (lift_io (ToString runId)) (\<lambda>rid.
       openAI env (''/threads/'' @ tid @ ''/runs/'' @ rid) ''GET'' None True))"

definition listMessages :: "env \<Rightarrow> json \<Rightarrow> nat \<Rightarrow> json io" where
  "listMessages env threadId limit =
     bind_io (lift_io (ToString threadId)) (\<lambda>tid.
       openAI env (''/threads/'' @ tid @ ''/messages?limit='' @ show_nat limit) ''GET'' None True)"

text \<open>The requests these operations send, once the ids are strings.\<close>

definition createThread_request :: "env \<Rightarrow> request" where
  "createThread_request env = openAI_request env ''/threads'' ''POST'' (Some (JObj [])) True"

definition addUserMessage_request :: "env \<Rightarrow> string \<Rightarrow> json \<Rightarrow> request" where
  "addUserMessage_request env tid text =
     openAI_request env (''/threads/'' @ tid @ ''/messages'') ''POST''
       (Some (JObj [(''role'', JStr ''user''),
                    (''content'', JArr [JObj [(''type'', JStr ''text''), (''text'', text)]])]))
       True"

definition createRun_request :: "env \<Rightarrow> string \<Rightarrow> request" where
  "createRun_request env tid =
     openAI_request env (''/threads/'' @ tid @ ''/runs'') ''POST''
       (Some (JObj [(''assistant_id'', JStr (ASSISTANT_ID env))])) True"

definition getRun_request :: "env \<Rightarrow> string \<Rightarrow> string \<Rightarrow> request" where
  "getRun_request env tid rid =
     openAI_request env (''/threads/'' @ tid @ ''/runs/'' @ rid) ''GET'' None True"

definition listMessages_request :: "env \<Rightarrow> string \<Rightarrow> nat \<Rightarrow> request" where
  "listMessages_request env tid limit =
     openAI_request env (''/threads/'' @ tid @ ''/messages?limit='' @ show_nat limit) ''GET''
       None True"

section \<open>Run completion poller\<close>

text \<open>
  The body of one attempt once the run has been fetched (lines 84 to 87): \<open>Inr (Some run)\<close>
  returns the run, \<open>Inl e\<close> throws, \<open>Inr None\<close> falls through to the sleep and the
  next attempt.
\<close>

definition poll_step :: "json \<Rightarrow> js_error + json option" where
  "poll_step run =
     (case get_prop run ''status'' of
        Inl e \<Rightarrow> Inl e
      | Inr st \<Rightarrow>
          if st = JStr ''completed'' then Inr (Some run)
          else if st \<in> set [JStr ''failed'', JStr ''cancelled'', JStr ''expired''] then
            (let m = opt_prop (opt_prop run ''last_error'') ''message'' in
             if truthy m then throw_new_Error m
             else
               (case ToString st of
                  Inl e \<Rightarrow> Inl e
                | Inr s \<Rightarrow> throw_new_Error (JStr (''Run '' @ s))))
          else Inr None)"

text \<open>
  The loop of \<^verbatim>\<open>waitForRunComplete\<close> from attempt \<open>i\<close> on. The 400 ms sleep
  between attempts changes nothing the model observes.
\<close>

text \<open>Line 90: \<^verbatim>\<open>new Error("Timed out waiting for assistant response")\<close>.\<close>

definition timeout_error :: js_error where
  "timeout_error =
     \<lparr>err_message = ''Timed out waiting for assistant response'', err_status = None,
      err_data = None\<rparr>"

function waitForRunComplete_from :: "env \<Rightarrow> json \<Rightarrow> json \<Rightarrow> nat \<Rightarrow> json io" where
  "waitForRunComplete_from env threadId runId i log =
     (if i < 40 then
        (case getRun env threadId runId log of
           (Inl e, log') \<Rightarrow> (Inl e, log')
         | (Inr run, log') \<Rightarrow>
             (case poll_step run of
                Inl e \<Rightarrow> (Inl e, log')
              | Inr (Some r) \<Rightarrow> (Inr r, log')
              | Inr None \<Rightarrow> waitForRunComplete_from env threadId runId (i + 1) log'))
      else (Inl timeout_error, log))"
  by pat_completeness auto
termination
  by (relation "measure (\<lambda>(env, threadId, runId, i, log). 40 - i)") auto

declare waitForRunComplete_from.simps [simp del]

definition waitForRunComplete :: "env \<Rightarrow> json \<Rightarrow> json \<Rightarrow> json io" where
  "waitForRunComplete env threadId runId = waitForRunComplete_from env threadId runId 0"

section \<open>Reply extractor\<close>

definition is_assistant :: "json \<Rightarrow> js_error + json" where
  "is_assistant m =
     (case get_prop m ''role'' of
        Inl e \<Rightarrow> Inl e
      | Inr r \<Rightarrow> Inr (JBool (r = JStr ''assistant'')))"

text \<open>\<^verbatim>\<open>b.type === "text" && b.text?.value\<close>.\<close>

definition is_text_block :: "json \<Rightarrow> js_error + json" where
  "is_text_block b =
     (case get_prop b ''type'' of
        Inl e \<Rightarrow> Inl e
      | Inr t \<Rightarrow>
          if t = JStr ''text'' then
            (case get_prop b ''text'' of
               Inl e \<Rightarrow> Inl e
             | Inr tx \<Rightarrow> Inr (opt_prop tx ''value''))
          else Inr (JBool False))"

definition extractLatestAssistantText :: "json \<Rightarrow> js_error + json" where
  "extractLatestAssistantText messagesList =
     (let data = array_or_empty (opt_prop messagesList ''data'') in
      case find_js is_assistant data of
        Inl e \<Rightarrow> Inl e
      | Inr assistantMsg \<Rightarrow>
          if \<not> truthy assistantMsg then Inr JNull
          else
            (case get_prop assistantMsg ''content'' of
               Inl e \<Rightarrow> Inl e
             | Inr c \<Rightarrow>
                 (case find_js is_text_block (array_or_empty c) of
                    Inl e \<Rightarrow> Inl e
                  | Inr textBlock \<Rightarrow>
                      Inr (nullish_coalesce (opt_prop (opt_prop textBlock ''text'') ''value'')
                             JNull))))"

section \<open>Routes\<close>

record http_response =
  res_status :: nat
  res_body :: json

text \<open>\<^verbatim>\<open>{ error: e.message, details: e.data }\<close>, as handed to \<^verbatim>\<open>res.json\<close>.\<close>

definition error_body :: "js_error \<Rightarrow> json" where
  "error_body e =
     JObj [(''error'', JStr (err_message e)),
           (''details'', (case err_data e of None \<Rightarrow> JUndefined | Some d \<Rightarrow> d))]"

text \<open>\<^verbatim>\<open>e.status || 500\<close>.\<close>

definition status_or_500 :: "js_error \<Rightarrow> nat" where
  "status_or_500 e = (case err_status e of None \<Rightarrow> 500 | Some s \<Rightarrow> if s = 0 then 500 else s)"

text \<open>\<^verbatim>\<open>(await createThread()).id\<close>, which both routes evaluate.\<close>

definition new_thread_id :: "env \<Rightarrow> json io" where
  "new_thread_id env = bind_io (createThread env) (\<lambda>thread. lift_io (get_prop thread ''id''))"

definition chat_start :: "env \<Rightarrow> request list \<Rightarrow> http_response \<times> request list" where
  "chat_start env log =
     (case new_thread_id env log of
        (Inr tid, log') \<Rightarrow> (\<lparr>res_status = 200, res_body = JObj [(''threadId'', tid)]\<rparr>, log')
      | (Inl e, log') \<Rightarrow> (\<lparr>res_status = 500, res_body = error_body e\<rparr>, log'))"

text \<open>Line 126: the caller's thread id when it is a non-empty string, else a new thread's.\<close>

definition resolve_thread :: "env \<Rightarrow> json \<Rightarrow> json io" where
  "resolve_thread env threadId =
     (if truthy threadId \<and> typeof_js threadId = ''string'' then return_io threadId
      else new_thread_id env)"

text \<open>The \<^verbatim>\<open>try\<close> block of \<^verbatim>\<open>/chat/send\<close> (lines 126 to 135).\<close>

definition chat_send_try :: "env \<Rightarrow> json \<Rightarrow> json \<Rightarrow> http_response io" where
  "chat_send_try env threadId message =
     bind_io (resolve_thread env threadId) (\<lambda>tid.
     bind_io (addUserMessage env tid message) (\<lambda>_.
     bind_io (createRun env tid) (\<lambda>run.
     bind_io (lift_io (get_prop run ''id'')) (\<lambda>runId.
     bind_io (waitForRunComplete env tid runId) (\<lambda>_.
     bind_io (listMessages env tid 20) (\<lambda>msgs.
     bind_io (lift_io (extractLatestAssistantText msgs)) (\<lambda>reply.
       return_io \<lparr>res_status = 200,
                  res_body = JObj [(''threadId'', tid), (''reply'', or_js reply (JStr []))]\<rparr>)))))))"

text \<open>Line 122: \<^verbatim>\<open>res.status(400).json({ error: "Missing or invalid 'message' string" })\<close>.\<close>

definition bad_request :: http_response where
  "bad_request =
     \<lparr>res_status = 400,
      res_body = JObj [(''error'', JStr (''Missing or invalid '' @ [CHR 39] @ ''message''
                                          @ [CHR 39] @ '' string''))]\<rparr>"

text \<open>
  \<^verbatim>\<open>POST /chat/send\<close>; \<open>body\<close> is \<^verbatim>\<open>req.body\<close> (\<open>JUndefined\<close> when the
  request had no parsed body). Destructuring \<^verbatim>\<open>req.body || {}\<close> reads from a truthy
  value, so it cannot throw.
\<close>

definition chat_send :: "env \<Rightarrow> json \<Rightarrow> request list \<Rightarrow> http_response \<times> request list" where
  "chat_send env body log =
     (let b = or_js body (JObj []);
          threadId = opt_prop b ''threadId'';
          message = opt_prop b ''message''
      in if \<not> truthy message \<or> typeof_js message \<noteq> ''string'' then (bad_request, log)
         else
           (case chat_send_try env threadId message log of
              (Inr res, log') \<Rightarrow> (res, log')
            | (Inl e, log') \<Rightarrow> (\<lparr>res_status = status_or_500 e, res_body = error_body e\<rparr>, log')))"

section \<open>A scripted upstream for concrete runs\<close>

text \<open>The stub answers the \<open>n\<close>-th request it sees with the \<open>n\<close>-th scripted outcome.\<close>

definition scripted :: "fetch_result list \<Rightarrow> request list \<Rightarrow> request \<Rightarrow> fetch_result" where
  "scripted rs log req =
     (if length log < length rs then rs ! length log else Rejected ''script exhausted'')"

definition stub_env :: "fetch_result list \<Rightarrow> env" where
  "stub_env rs = \<lparr>OPENAI_API_KEY = ''sk-test'', ASSISTANT_ID = ''asst_1'', upstream = scripted rs\<rparr>"

section \<open>Answers to status fetches\<close>

text \<open>
  What the upstream answers to the \<open>(j + 1)\<close>-th of a run of consecutive status
  fetches \<open>req\<close> that starts after the requests in \<open>log\<close>.
\<close>

definition status_fetch :: "env \<Rightarrow> request list \<Rightarrow> request \<Rightarrow> nat \<Rightarrow> fetch_result" where
  "status_fetch env log req j = upstream env (log @ replicate j req) req"

text \<open>
  An answer that reports a run still pending: a response in the success range whose
  payload has a readable \<^verbatim>\<open>status\<close> that is none of the four terminal values.
\<close>

definition pending_answer :: "fetch_result \<Rightarrow> bool" where
  "pending_answer r =
     (case r of
        Rejected m \<Rightarrow> False
      | Response st t \<Rightarrow>
          res_ok st \<and>
          (case get_prop (parse_body t) ''status'' of
             Inl e \<Rightarrow> False
           | Inr s \<Rightarrow>
               s \<notin> set [JStr ''completed'', JStr ''failed'', JStr ''cancelled'',
                          JStr ''expired'']))"

section \<open>Concrete conversations\<close>

definition run_answer :: "string \<Rightarrow> fetch_result" where
  "run_answer status = Response 200 (Json (JObj [(''id'', JStr ''run_1''), (''status'', JStr status)]))"

definition hello_messages :: json where
  "hello_messages =
     JObj [(''data'', JArr [
       JObj [(''role'', JStr ''assistant''),
             (''content'', JArr [JObj [(''type'', JStr ''text''),
                                       (''text'', JObj [(''value'', JStr ''hello'')])]])],
       JObj [(''role'', JStr ''user''),
             (''content'', JArr [JObj [(''type'', JStr ''text''),
                                       (''text'', JObj [(''value'', JStr ''hi'')])]])]])]"

definition opening_answers :: "fetch_result list" where
  "opening_answers =
     [Response 200 (Json (JObj [(''id'', JStr ''thread_1'')])),
      Response 200 (Json (JObj [(''id'', JStr ''msg_1'')])),
      run_answer ''queued'']"

definition completing_env :: env where
  "completing_env =
     stub_env (opening_answers @
       [run_answer ''queued'', run_answer ''in_progress'', run_answer ''completed'',
        Response 200 (Json hello_messages)])"

definition hi_body :: json where
  "hi_body = JObj [(''message'', JStr ''hi'')]"

definition opening_requests :: "env \<Rightarrow> request list" where
  "opening_requests env =
     [createThread_request env, addUserMessage_request env ''thread_1'' (JStr ''hi''),
      createRun_request env ''thread_1'']"

definition stalling_env :: env where
  "stalling_env = stub_env (opening_answers @ replicate 40 (run_answer ''in_progress''))"

definition failing_env :: env where
  "failing_env =
     stub_env [Response 200 (Json (JObj [(''id'', JStr ''run_1''), (''status'', JStr ''failed''),
                 (''last_error'', JObj [(''code'', JStr ''server_error''),
                                        (''message'', JStr ''boom'')])]))]"

definition empty_message_run :: json where
  "empty_message_run =
     JObj [(''id'', JStr ''run_1''), (''status'', JStr ''failed''),
           (''last_error'', JObj [(''code'', JStr ''server_error''), (''message'', JStr [])])]"

definition rejected_key_env :: env where
  "rejected_key_env =
     stub_env [Response 401 (Json (JObj [(''error'',
        JObj [(''message'', JStr ''Incorrect API key provided''),
              (''type'', JStr ''invalid_request_error'')])]))]"

definition empty_error_env :: env where
  "empty_error_env =
     stub_env [Response 500 (Json (JObj [(''error'', JObj [(''message'', JStr [])])]))]"

definition missing_thread_env :: env where
  "missing_thread_env =
     stub_env [Response 404 (Json (JObj [(''error'',
        JObj [(''message'', JStr ''No thread found with id t1'')])]))]"

definition reuse_body :: json where
  "reuse_body = JObj [(''threadId'', JStr ''t1''), (''message'', JStr ''hi'')]"

definition user_only_messages :: json where
  "user_only_messages =
     JObj [(''data'', JArr [
       JObj [(''role'', JStr ''user''),
             (''content'', JArr [JObj [(''type'', JStr ''text''),
                                       (''text'', JObj [(''value'', JStr ''hi'')])]])]])]"


section \<open>Vocabulary of the reply extractor\<close>

text \<open>
  The entries of a message list and the content blocks of an entry, as the extractor
  takes them (\<^verbatim>\<open>Array.isArray(x) ? x : []\<close>); an entry written by the assistant; a
  block's nested value (\<^verbatim>\<open>b.text?.value\<close>); a text block whose value is non-empty,
  that is truthy: for a string, not the empty one.
\<close>

definition entries_of :: "json \<Rightarrow> json list" where
  "entries_of messagesList = array_or_empty (opt_prop messagesList ''data'')"

definition blocks_of :: "json \<Rightarrow> json list" where
  "blocks_of m = array_or_empty (opt_prop m ''content'')"

definition assistant_entry :: "json \<Rightarrow> bool" where
  "assistant_entry m \<longleftrightarrow> opt_prop m ''role'' = JStr ''assistant''"

definition text_value :: "json \<Rightarrow> json" where
  "text_value b = opt_prop (opt_prop b ''text'') ''value''"

definition text_block :: "json \<Rightarrow> bool" where
  "text_block b \<longleftrightarrow> opt_prop b ''type'' = JStr ''text'' \<and> truthy (text_value b)"

text \<open>
  The scans stop at the first match, so only the elements up to it are read: no
  element before the first one that satisfies \<open>P\<close> is \<^verbatim>\<open>null\<close> or
  \<^verbatim>\<open>undefined\<close> (none at all, when no element satisfies \<open>P\<close>).
\<close>

fun no_null_before :: "(json \<Rightarrow> bool) \<Rightarrow> json list \<Rightarrow> bool" where
  "no_null_before P [] = True"
| "no_null_before P (x # xs) = (\<not> nullish x \<and> (P x \<or> no_null_before P xs))"

text \<open>
  The extractor's two scans meet no \<^verbatim>\<open>null\<close> or \<^verbatim>\<open>undefined\<close>: none among the
  entries up to the first assistant entry, none among that entry's blocks up to its first
  text block with a non-empty value.
\<close>

definition scan_meets_no_null :: "json \<Rightarrow> bool" where
  "scan_meets_no_null messagesList \<longleftrightarrow>
     no_null_before assistant_entry (entries_of messagesList) \<and>
     (case List.find assistant_entry (entries_of messagesList) of
        None \<Rightarrow> True
      | Some m \<Rightarrow> no_null_before text_block (blocks_of m))"

definition silent_env :: env where
  "silent_env =
     stub_env (opening_answers @ [run_answer ''completed'', Response 200 (Json user_only_messages)])"


definition null_first_messages :: json where
  "null_first_messages =
     JObj [(''data'', JArr [
       JNull,
       JObj [(''role'', JStr ''assistant''),
             (''content'', JArr [JObj [(''type'', JStr ''text''),
                                       (''text'', JObj [(''value'', JStr ''hello'')])]])]])]"

section \<open>Sequencing and the upstream client\<close>

lemma res_ok_numerals:
  "res_ok 200" "\<not> res_ok 401" "\<not> res_ok 404" "\<not> res_ok 500"
  by (simp_all add: res_ok_def)

lemma bind_io_Inr:
  "m log = (Inr x, l) \<Longrightarrow> bind_io m f log = f x l"
  by (simp add: bind_io_def)

lemma bind_io_Inl:
  "m log = (Inl e, l) \<Longrightarrow> bind_io m f log = (Inl e, l)"
  by (simp add: bind_io_def)

lemma bind_io_InrE:
  assumes "bind_io m f log = (Inr y, l)"
  obtains x l' where "m log = (Inr x, l')" and "f x l' = (Inr y, l)"
  using assms by (auto simp: bind_io_def split: prod.splits sum.splits)

lemma lift_io_simp [simp]: "lift_io r log = (r, log)"
  by (simp add: lift_io_def)

lemma return_io_simp [simp]: "return_io x log = (Inr x, log)"
  by (simp add: return_io_def)

lemma openAI_log:
  "snd (openAI env path method body beta log) = log @ [openAI_request env path method body beta]"
  by (simp add: openAI_def Let_def split: fetch_result.splits sum.splits)

lemma openAI_ok:
  assumes "upstream env log (openAI_request env path method body beta) = Response st t"
    and "res_ok st"
  shows "openAI env path method body beta log
         = (Inr (parse_body t), log @ [openAI_request env path method body beta])"
  using assms by (simp add: openAI_def Let_def)

lemma getRun_eval:
  assumes "ToString threadId = Inr ts" and "ToString runId = Inr rs"
    and "upstream env log (getRun_request env ts rs) = Response st t"
    and "res_ok st"
  shows "getRun env threadId runId log = (Inr (parse_body t), log @ [getRun_request env ts rs])"
  using assms openAI_ok [of env log "''/threads/'' @ ts @ ''/runs/'' @ rs" "''GET''" None True st t]
  by (simp add: getRun_def getRun_request_def bind_io_def)

section \<open>The poller\<close>

lemma poll_step_pending:
  assumes "get_prop run ''status'' = Inr st"
    and "st \<notin> set [JStr ''completed'', JStr ''failed'', JStr ''cancelled'', JStr ''expired'']"
  shows "poll_step run = Inr None"
  using assms by (simp add: poll_step_def)

lemma poll_step_completed:
  assumes "get_prop run ''status'' = Inr (JStr ''completed'')"
  shows "poll_step run = Inr (Some run)"
  using assms by (simp add: poll_step_def)

lemma pending_answerD:
  assumes "pending_answer (status_fetch env log req j)"
  obtains st t where "upstream env (log @ replicate j req) req = Response st t"
    and "res_ok st" and "poll_step (parse_body t) = Inr None"
proof -
  from assms obtain st t s where
    "upstream env (log @ replicate j req) req = Response st t" "res_ok st"
    "get_prop (parse_body t) ''status'' = Inr s"
    "s \<notin> set [JStr ''completed'', JStr ''failed'', JStr ''cancelled'', JStr ''expired'']"
    unfolding pending_answer_def status_fetch_def
    by (auto split: fetch_result.splits sum.splits)
  then show thesis
    using that poll_step_pending by blast
qed

text \<open>
  While the answers report a pending run, each attempt sends one status fetch and goes
  on to the next attempt.
\<close>

lemma poll_pending_steps:
  assumes ts: "ToString threadId = Inr ts" and rs: "ToString runId = Inr rs"
  shows "(\<forall>j<k. pending_answer (status_fetch env log (getRun_request env ts rs) j))
         \<Longrightarrow> i + k \<le> 40
         \<Longrightarrow> waitForRunComplete_from env threadId runId i log
            = waitForRunComplete_from env threadId runId (i + k)
                (log @ replicate k (getRun_request env ts rs))"
proof (induction k arbitrary: i log)
  case 0
  then show ?case by simp
next
  case (Suc k)
  let ?req = "getRun_request env ts rs"
  from Suc.prems(1) have "pending_answer (status_fetch env log ?req 0)"
    by blast
  then obtain st t where
    first: "upstream env log ?req = Response st t" "res_ok st"
      "poll_step (parse_body t) = Inr None"
    by (elim pending_answerD) simp
  have run: "getRun env threadId runId log = (Inr (parse_body t), log @ [?req])"
    using getRun_eval [OF ts rs first(1,2)] .
  have step: "waitForRunComplete_from env threadId runId i log
              = waitForRunComplete_from env threadId runId (i + 1) (log @ [?req])"
    using Suc.prems(2) run first(3)
    by (subst waitForRunComplete_from.simps) simp
  have later: "\<forall>j<k. pending_answer (status_fetch env (log @ [?req]) ?req j)"
  proof (intro allI impI)
    fix j assume "j < k"
    then have "pending_answer (status_fetch env log ?req (Suc j))"
      using Suc.prems(1) by simp
    then show "pending_answer (status_fetch env (log @ [?req]) ?req j)"
      by (simp add: status_fetch_def)
  qed
  have "waitForRunComplete_from env threadId runId (i + 1) (log @ [?req])
        = waitForRunComplete_from env threadId runId (i + 1 + k)
            ((log @ [?req]) @ replicate k ?req)"
    using Suc.IH [OF later, of "i + 1"] Suc.prems(2) by simp
  with step show ?case
    by (simp add: replicate_append_same)
qed

section \<open>Request validation\<close>

lemma valid_message_iff:
  "truthy v \<and> typeof_js v = ''string'' \<longleftrightarrow> (\<exists>s. s \<noteq> [] \<and> v = JStr s)"
  by (cases v) auto

lemma chat_send_rejects:
  assumes "\<And>s. s \<noteq> [] \<Longrightarrow> opt_prop (or_js body (JObj [])) ''message'' \<noteq> JStr s"
  shows "chat_send env body log = (bad_request, log)"
proof -
  let ?m = "opt_prop (or_js body (JObj [])) ''message''"
  from assms have "\<not> (truthy ?m \<and> typeof_js ?m = ''string'')"
    unfolding valid_message_iff by blast
  then show ?thesis
    unfolding chat_send_def Let_def by auto
qed

lemma message_read:
  "get_prop body ''message'' \<noteq> Inr (JStr s) \<Longrightarrow> s \<noteq> [] \<Longrightarrow>
   opt_prop (or_js body (JObj [])) ''message'' \<noteq> JStr s"
  by (cases body) (auto simp: or_js_def split: option.splits)

text \<open>
  Claim C2. When reading \<^verbatim>\<open>message\<close> from the request body does not give a string
  (the body is absent, has no such property, or the property is not a string),
  \<^verbatim>\<open>POST /chat/send\<close> answers 400 with the fixed error body, and the list of
  upstream requests is returned as it was: no thread creation, append, run, poll or
  list request is sent, whatever the upstream is.
\<close>

theorem chat_send_non_string_message_400:
  assumes "\<And>s. get_prop body ''message'' \<noteq> Inr (JStr s)"
  shows "chat_send env body log = (bad_request, log) \<and> res_status bad_request = 400"
proof
  show "chat_send env body log = (bad_request, log)"
    by (rule chat_send_rejects) (simp add: message_read assms)
  show "res_status bad_request = 400"
    by (simp add: bad_request_def)
qed

theorem chat_send_non_string_message_400_witness:
  "(\<forall>s. get_prop (JObj [(''threadId'', JStr ''t1''), (''message'', JNum ''7'')]) ''message''
        \<noteq> Inr (JStr s))
   \<and> chat_send (stub_env []) (JObj [(''threadId'', JStr ''t1''), (''message'', JNum ''7'')]) []
       = (bad_request, [])
   \<and> res_status bad_request = 400"
  using chat_send_non_string_message_400
    [of "JObj [(''threadId'', JStr ''t1''), (''message'', JNum ''7'')]" "stub_env []" "[]"]
  by simp

text \<open>
  Claim C10. A \<^verbatim>\<open>message\<close> that is the empty string is present and is a string,
  yet \<^verbatim>\<open>!message\<close> holds for it: the answer is the same 400 and no upstream request
  is sent.
\<close>

theorem chat_send_empty_message_400:
  assumes "get_prop body ''message'' = Inr (JStr [])"
  shows "chat_send env body log = (bad_request, log) \<and> res_status bad_request = 400"
proof
  show "chat_send env body log = (bad_request, log)"
    by (rule chat_send_rejects) (use assms in \<open>simp add: message_read\<close>)
  show "res_status bad_request = 400"
    by (simp add: bad_request_def)
qed

theorem chat_send_empty_message_400_witness:
  "get_prop (JObj [(''message'', JStr [])]) ''message'' = Inr (JStr [])
   \<and> chat_send (stub_env []) (JObj [(''message'', JStr [])]) [] = (bad_request, [])
   \<and> res_status bad_request = 400"
  using chat_send_empty_message_400 [of "JObj [(''message'', JStr [])]" "stub_env []" "[]"]
  by simp

section \<open>The send route and the poller\<close>

lemma message_is_string_body:
  assumes "get_prop body ''message'' = Inr (JStr msg)"
  shows "opt_prop (or_js body (JObj [])) k = (case get_prop body k of Inr v \<Rightarrow> v | Inl e \<Rightarrow> JUndefined)"
  using assms by (cases body) (auto simp: or_js_def)

lemma chat_send_valid:
  assumes "get_prop body ''message'' = Inr (JStr msg)" and "msg \<noteq> []"
    and "get_prop body ''threadId'' = Inr threadId"
  shows "chat_send env body log =
           (case chat_send_try env threadId (JStr msg) log of
              (Inr res, log') \<Rightarrow> (res, log')
            | (Inl e, log') \<Rightarrow> (\<lparr>res_status = status_or_500 e, res_body = error_body e\<rparr>, log'))"
  using assms
  by (simp add: chat_send_def Let_def message_is_string_body [OF assms(1)])

lemma addUserMessage_log:
  assumes "ToString threadId = Inr ts"
  shows "snd (addUserMessage env threadId text log) = log @ [addUserMessage_request env ts text]"
  using assms by (simp add: addUserMessage_def addUserMessage_request_def bind_io_def openAI_log)

lemma createRun_log:
  assumes "ToString threadId = Inr ts"
  shows "snd (createRun env threadId log) = log @ [createRun_request env ts]"
  using assms by (simp add: createRun_def createRun_request_def bind_io_def openAI_log)

lemma listMessages_log:
  assumes "ToString threadId = Inr ts"
  shows "snd (listMessages env threadId limit log) = log @ [listMessages_request env ts limit]"
  using assms by (simp add: listMessages_def listMessages_request_def bind_io_def openAI_log)

lemma createThread_log:
  "snd (createThread env log) = log @ [createThread_request env]"
  by (simp add: createThread_def createThread_request_def openAI_log)

lemma resolve_thread_log:
  "snd (resolve_thread env threadId log) = log \<or>
   snd (resolve_thread env threadId log) = log @ [createThread_request env]"
  using createThread_log [of env log]
  by (auto simp: resolve_thread_def new_thread_id_def bind_io_def split: prod.splits sum.splits)

text \<open>After the poller returns, the try block lists messages and sends nothing else.\<close>

lemma after_poll_log:
  assumes "ToString tid = Inr ts"
  shows "snd (bind_io (listMessages env tid 20) (\<lambda>msgs.
              bind_io (lift_io (extractLatestAssistantText msgs)) (\<lambda>reply.
                return_io (mk reply))) log)
         = log @ [listMessages_request env ts 20]"
  using listMessages_log [OF assms, of env 20 log]
  by (auto simp: bind_io_def split: prod.splits sum.splits)

lemma chat_send_try_reaches_poller:
  assumes "resolve_thread env threadId log0 = (Inr tid, log1)"
    and "addUserMessage env tid message log1 = (Inr a, log2)"
    and "createRun env tid log2 = (Inr run, log3)"
    and "get_prop run ''id'' = Inr runId"
  shows "chat_send_try env threadId message log0 =
     bind_io (waitForRunComplete env tid runId) (\<lambda>_.
     bind_io (listMessages env tid 20) (\<lambda>msgs.
     bind_io (lift_io (extractLatestAssistantText msgs)) (\<lambda>reply.
       return_io \<lparr>res_status = 200,
                  res_body = JObj [(''threadId'', tid), (''reply'', or_js reply (JStr []))]\<rparr>))) log3"
  using assms by (simp add: chat_send_try_def bind_io_def)

lemma snd_catch:
  "snd (case r of (Inr res, log') \<Rightarrow> (res, log') | (Inl e, log') \<Rightarrow> (h e, log')) = snd r"
  by (auto split: prod.splits sum.splits)

lemma poller_completes:
  assumes ts: "ToString tid = Inr ts" and rs: "ToString runId = Inr rs"
    and N: "1 \<le> N" "N \<le> 40"
    and pending: "\<forall>j<N - 1. pending_answer (status_fetch env log (getRun_request env ts rs) j)"
    and final: "status_fetch env log (getRun_request env ts rs) (N - 1) = Response st t"
      "res_ok st" "get_prop (parse_body t) ''status'' = Inr (JStr ''completed'')"
  shows "waitForRunComplete env tid runId log
         = (Inr (parse_body t), log @ replicate N (getRun_request env ts rs))"
proof -
  let ?req = "getRun_request env ts rs"
  let ?log = "log @ replicate (N - 1) ?req"
  have "waitForRunComplete env tid runId log = waitForRunComplete_from env tid runId (N - 1) ?log"
    unfolding waitForRunComplete_def
    using poll_pending_steps [OF ts rs pending, of 0] N by simp
  moreover have "getRun env tid runId ?log = (Inr (parse_body t), ?log @ [?req])"
    using getRun_eval [OF ts rs] final(1,2) by (simp add: status_fetch_def)
  moreover have "poll_step (parse_body t) = Inr (Some (parse_body t))"
    using final(3) by (rule poll_step_completed)
  moreover have "?log @ [?req] = log @ replicate N ?req"
    using N by (cases N) (simp_all add: replicate_append_same)
  ultimately show ?thesis
    using N by (subst (asm) waitForRunComplete_from.simps) simp
qed

text \<open>
  Claim C3. Let a \<^verbatim>\<open>/chat/send\<close> request with a valid message have resolved its
  thread, appended the message and created a run, the requests sent up to then being
  \<open>log3\<close>. For \<open>1 \<le> N \<le> 40\<close>: when the first \<open>N - 1\<close> status fetches are
  answered with a pending run and the \<open>N\<close>-th with a run whose status is
  \<^verbatim>\<open>completed\<close>, the poller sends exactly \<open>N\<close> status fetches and returns that run,
  and the request the route sends right after them, its last, is the list-messages
  request for the thread with limit 20.
\<close>

theorem poller_completes_on_Nth_fetch:
  assumes msg: "get_prop body ''message'' = Inr (JStr msg)" "msg \<noteq> []"
    and thr: "get_prop body ''threadId'' = Inr threadId"
    and resolve: "resolve_thread env threadId log0 = (Inr tid, log1)"
    and add: "addUserMessage env tid (JStr msg) log1 = (Inr a, log2)"
    and run: "createRun env tid log2 = (Inr run, log3)"
    and rid: "get_prop run ''id'' = Inr runId"
    and ts: "ToString tid = Inr ts" and rs: "ToString runId = Inr rs"
    and N: "1 \<le> N" "N \<le> 40"
    and pending: "\<forall>j<N - 1. pending_answer (status_fetch env log3 (getRun_request env ts rs) j)"
    and final: "status_fetch env log3 (getRun_request env ts rs) (N - 1) = Response st t"
      "res_ok st" "get_prop (parse_body t) ''status'' = Inr (JStr ''completed'')"
  shows "waitForRunComplete env tid runId log3
           = (Inr (parse_body t), log3 @ replicate N (getRun_request env ts rs))
         \<and> snd (chat_send env body log0)
           = log3 @ replicate N (getRun_request env ts rs) @ [listMessages_request env ts 20]"
proof
  show poll: "waitForRunComplete env tid runId log3
           = (Inr (parse_body t), log3 @ replicate N (getRun_request env ts rs))"
    using ts rs N pending final by (rule poller_completes)
  have "snd (chat_send env body log0) = snd (chat_send_try env threadId (JStr msg) log0)"
    unfolding chat_send_valid [OF msg thr] by (rule snd_catch)
  also have "\<dots> = log3 @ replicate N (getRun_request env ts rs) @ [listMessages_request env ts 20]"
    unfolding chat_send_try_reaches_poller [OF resolve add run rid]
    using after_poll_log [OF ts, of env _ "log3 @ replicate N (getRun_request env ts rs)"]
    by (simp add: bind_io_Inr [where m = "waitForRunComplete env tid runId" and log = log3, OF poll])
  finally show "snd (chat_send env body log0)
           = log3 @ replicate N (getRun_request env ts rs) @ [listMessages_request env ts 20]" .
qed

lemmas stub_simps =
  stub_env_def scripted_def opening_answers_def run_answer_def openAI_def res_ok_numerals
  parse_body_def bind_io_def Let_def

theorem poller_completes_on_Nth_fetch_witness:
  "waitForRunComplete completing_env (JStr ''thread_1'') (JStr ''run_1'')
       (opening_requests completing_env)
     = (Inr (JObj [(''id'', JStr ''run_1''), (''status'', JStr ''completed'')]),
        opening_requests completing_env
          @ replicate 3 (getRun_request completing_env ''thread_1'' ''run_1''))
   \<and> snd (chat_send completing_env hi_body [])
     = opening_requests completing_env
         @ replicate 3 (getRun_request completing_env ''thread_1'' ''run_1'')
         @ [listMessages_request completing_env ''thread_1'' 20]"
proof -
  let ?env = completing_env
  let ?req = "getRun_request ?env ''thread_1'' ''run_1''"
  have msg: "get_prop hi_body ''message'' = Inr (JStr ''hi'')" "''hi'' \<noteq> []"
    and thr: "get_prop hi_body ''threadId'' = Inr JUndefined"
    by (simp_all add: hi_body_def)
  have resolve: "resolve_thread ?env JUndefined [] = (Inr (JStr ''thread_1''), [createThread_request ?env])"
    by (simp add: resolve_thread_def new_thread_id_def createThread_def
        createThread_request_def completing_env_def stub_simps)
  have add: "addUserMessage ?env (JStr ''thread_1'') (JStr ''hi'') [createThread_request ?env]
      = (Inr (JObj [(''id'', JStr ''msg_1'')]),
         [createThread_request ?env, addUserMessage_request ?env ''thread_1'' (JStr ''hi'')])"
    by (simp add: addUserMessage_def addUserMessage_request_def completing_env_def stub_simps)
  have run: "createRun ?env (JStr ''thread_1'')
        [createThread_request ?env, addUserMessage_request ?env ''thread_1'' (JStr ''hi'')]
      = (Inr (JObj [(''id'', JStr ''run_1''), (''status'', JStr ''queued'')]),
         opening_requests ?env)"
    by (simp add: createRun_def createRun_request_def opening_requests_def completing_env_def
        stub_simps)
  have rid: "get_prop (JObj [(''id'', JStr ''run_1''), (''status'', JStr ''queued'')]) ''id''
      = Inr (JStr ''run_1'')"
    by simp
  have ts: "ToString (JStr ''thread_1'') = Inr ''thread_1''"
    and rs: "ToString (JStr ''run_1'') = Inr ''run_1''"
    by simp_all
  have N: "1 \<le> (3::nat)" "(3::nat) \<le> 40"
    by simp_all
  have pending: "\<forall>j<3 - 1. pending_answer (status_fetch ?env (opening_requests ?env) ?req j)"
    by (simp add: less_Suc_eq numeral_2_eq_2 pending_answer_def status_fetch_def
        opening_requests_def completing_env_def stub_simps)
  have final: "status_fetch ?env (opening_requests ?env) ?req (3 - 1)
        = Response 200 (Json (JObj [(''id'', JStr ''run_1''), (''status'', JStr ''completed'')]))"
      "res_ok 200"
      "get_prop (parse_body (Json (JObj [(''id'', JStr ''run_1''), (''status'', JStr ''completed'')])))
         ''status'' = Inr (JStr ''completed'')"
    by (simp_all add: status_fetch_def opening_requests_def completing_env_def stub_simps
        numeral_2_eq_2)
  show ?thesis
    using poller_completes_on_Nth_fetch [OF msg thr resolve add run rid ts rs N pending final]
    by (simp add: parse_body_def)
qed

lemma poller_times_out:
  assumes ts: "ToString tid = Inr ts" and rs: "ToString runId = Inr rs"
    and pending: "\<forall>j<40. pending_answer (status_fetch env log (getRun_request env ts rs) j)"
  shows "waitForRunComplete env tid runId log
         = (Inl timeout_error, log @ replicate 40 (getRun_request env ts rs))"
proof -
  have "waitForRunComplete env tid runId log
        = waitForRunComplete_from env tid runId 40 (log @ replicate 40 (getRun_request env ts rs))"
    unfolding waitForRunComplete_def
    using poll_pending_steps [OF ts rs pending, of 0] by simp
  then show ?thesis
    by (subst (asm) waitForRunComplete_from.simps) simp
qed

lemma addUserMessage_InrD:
  assumes "addUserMessage env tid msg log = (Inr a, l)" and "ToString tid = Inr ts"
  shows "l = log @ [addUserMessage_request env ts msg]"
  using addUserMessage_log [OF assms(2), of env msg log] assms(1) by simp

lemma createRun_InrD:
  assumes "createRun env tid log = (Inr a, l)" and "ToString tid = Inr ts"
  shows "l = log @ [createRun_request env ts]"
  using createRun_log [OF assms(2), of env log] assms(1) by simp

lemma list_request_not_sent:
  "listMessages_request env ts n \<noteq> createThread_request env"
  "listMessages_request env ts n \<noteq> addUserMessage_request env ts text"
  "listMessages_request env ts n \<noteq> createRun_request env ts"
  "listMessages_request env ts n \<noteq> getRun_request env ts rs"
  by (simp_all add: listMessages_request_def createThread_request_def
      addUserMessage_request_def createRun_request_def getRun_request_def openAI_request_def)

text \<open>
  Claim C5. In the same situation, when each of the first 40 status fetches is answered
  with a pending run (no answer carries \<^verbatim>\<open>completed\<close>, \<^verbatim>\<open>failed\<close>,
  \<^verbatim>\<open>cancelled\<close> or \<^verbatim>\<open>expired\<close>), the poller sends exactly 40 status fetches and
  throws the timeout error; the route answers 500 with that message, and the requests
  it has sent are the thread creation (if any), the append, the run creation and the 40
  status fetches, none of which is a list-messages request for the thread.
\<close>

theorem poller_times_out_after_40:
  assumes msg: "get_prop body ''message'' = Inr (JStr msg)" "msg \<noteq> []"
    and thr: "get_prop body ''threadId'' = Inr threadId"
    and resolve: "resolve_thread env threadId log0 = (Inr tid, log1)"
    and add: "addUserMessage env tid (JStr msg) log1 = (Inr a, log2)"
    and run: "createRun env tid log2 = (Inr run, log3)"
    and rid: "get_prop run ''id'' = Inr runId"
    and ts: "ToString tid = Inr ts" and rs: "ToString runId = Inr rs"
    and pending: "\<forall>j<40. pending_answer (status_fetch env log3 (getRun_request env ts rs) j)"
  shows "waitForRunComplete env tid runId log3
           = (Inl timeout_error, log3 @ replicate 40 (getRun_request env ts rs))
         \<and> chat_send env body log0
           = (\<lparr>res_status = 500,
               res_body = JObj [(''error'', JStr ''Timed out waiting for assistant response''),
                               (''details'', JUndefined)]\<rparr>,
              log3 @ replicate 40 (getRun_request env ts rs))
         \<and> log3 = log1 @ [addUserMessage_request env ts (JStr msg), createRun_request env ts]
         \<and> (log1 = log0 \<or> log1 = log0 @ [createThread_request env])
         \<and> (\<forall>n. listMessages_request env ts n \<notin>
               set ([createThread_request env, addUserMessage_request env ts (JStr msg),
                     createRun_request env ts] @ replicate 40 (getRun_request env ts rs)))"
proof (intro conjI)
  show poll: "waitForRunComplete env tid runId log3
           = (Inl timeout_error, log3 @ replicate 40 (getRun_request env ts rs))"
    using ts rs pending by (rule poller_times_out)
  have "chat_send_try env threadId (JStr msg) log0
        = (Inl timeout_error, log3 @ replicate 40 (getRun_request env ts rs))"
    unfolding chat_send_try_reaches_poller [OF resolve add run rid]
    by (simp add: bind_io_Inl [where m = "waitForRunComplete env tid runId" and log = log3, OF poll])
  then show "chat_send env body log0
           = (\<lparr>res_status = 500,
               res_body = JObj [(''error'', JStr ''Timed out waiting for assistant response''),
                               (''details'', JUndefined)]\<rparr>,
              log3 @ replicate 40 (getRun_request env ts rs))"
    unfolding chat_send_valid [OF msg thr]
    by (simp add: status_or_500_def error_body_def timeout_error_def)
  show "log3 = log1 @ [addUserMessage_request env ts (JStr msg), createRun_request env ts]"
    using addUserMessage_InrD [OF add ts] createRun_InrD [OF run ts] by simp
  show "log1 = log0 \<or> log1 = log0 @ [createThread_request env]"
    using resolve_thread_log [of env threadId log0] resolve by simp
  show "\<forall>n. listMessages_request env ts n \<notin>
               set ([createThread_request env, addUserMessage_request env ts (JStr msg),
                     createRun_request env ts] @ replicate 40 (getRun_request env ts rs))"
    using list_request_not_sent [of env ts] by auto
qed

lemma opening_run:
  fixes rest :: "fetch_result list"
  defines "env \<equiv> stub_env (opening_answers @ rest)"
  shows "resolve_thread env JUndefined [] = (Inr (JStr ''thread_1''), [createThread_request env])"
    and "addUserMessage env (JStr ''thread_1'') (JStr ''hi'') [createThread_request env]
      = (Inr (JObj [(''id'', JStr ''msg_1'')]),
         [createThread_request env, addUserMessage_request env ''thread_1'' (JStr ''hi'')])"
    and "createRun env (JStr ''thread_1'')
        [createThread_request env, addUserMessage_request env ''thread_1'' (JStr ''hi'')]
      = (Inr (JObj [(''id'', JStr ''run_1''), (''status'', JStr ''queued'')]),
         opening_requests env)"
  unfolding env_def
  by (simp_all add: resolve_thread_def new_thread_id_def createThread_def
        createThread_request_def addUserMessage_def addUserMessage_request_def createRun_def createRun_request_def
        opening_requests_def stub_simps)

theorem poller_times_out_after_40_witness:
  "waitForRunComplete stalling_env (JStr ''thread_1'') (JStr ''run_1'')
       (opening_requests stalling_env)
     = (Inl timeout_error,
        opening_requests stalling_env
          @ replicate 40 (getRun_request stalling_env ''thread_1'' ''run_1''))
   \<and> chat_send stalling_env hi_body []
     = (\<lparr>res_status = 500,
         res_body = JObj [(''error'', JStr ''Timed out waiting for assistant response''),
                         (''details'', JUndefined)]\<rparr>,
        opening_requests stalling_env
          @ replicate 40 (getRun_request stalling_env ''thread_1'' ''run_1''))"
proof -
  let ?env = stalling_env
  let ?req = "getRun_request ?env ''thread_1'' ''run_1''"
  have msg: "get_prop hi_body ''message'' = Inr (JStr ''hi'')" "''hi'' \<noteq> []"
    and thr: "get_prop hi_body ''threadId'' = Inr JUndefined"
    by (simp_all add: hi_body_def)
  note start = opening_run [of "replicate 40 (run_answer ''in_progress'')", folded stalling_env_def]
  have rid: "get_prop (JObj [(''id'', JStr ''run_1''), (''status'', JStr ''queued'')]) ''id''
      = Inr (JStr ''run_1'')"
    by simp
  have ts: "ToString (JStr ''thread_1'') = Inr ''thread_1''"
    and rs: "ToString (JStr ''run_1'') = Inr ''run_1''"
    by simp_all
  have pending: "\<forall>j<40. pending_answer (status_fetch ?env (opening_requests ?env) ?req j)"
    by (simp add: pending_answer_def status_fetch_def opening_requests_def stalling_env_def
        stub_env_def scripted_def opening_answers_def run_answer_def res_ok_numerals parse_body_def
        nth_append)
  show ?thesis
    using poller_times_out_after_40 [OF msg thr start rid ts rs pending]
    by blast
qed

lemma throw_new_Error_eq:
  "throw_new_Error v = Inl (case ToString v of Inl e \<Rightarrow> e | Inr x \<Rightarrow> plain_error x)"
  by (simp add: throw_new_Error_def new_Error_def split: sum.splits)

text \<open>
  Claim C4, as amended. When the first \<open>k\<close> status fetches are answered with a pending
  run and the next one (\<open>k < 40\<close>) with a run whose status is \<^verbatim>\<open>failed\<close>,
  \<^verbatim>\<open>cancelled\<close> or \<^verbatim>\<open>expired\<close>, the poller throws at once: \<open>k + 1\<close> status
  fetches have been sent and no more follow. The error's message is the run's
  \<^verbatim>\<open>last_error.message\<close> when that is a non-empty string (in general its string
  conversion when it is truthy), and \<^verbatim>\<open>Run <status>\<close> when it is absent, empty or
  otherwise falsy.
\<close>

theorem poller_fails_on_terminal_status:
  assumes ts: "ToString tid = Inr ts" and rs: "ToString runId = Inr rs"
    and k: "k < 40"
    and pending: "\<forall>j<k. pending_answer (status_fetch env log (getRun_request env ts rs) j)"
    and final: "status_fetch env log (getRun_request env ts rs) k = Response st t" "res_ok st"
    and status: "get_prop (parse_body t) ''status'' = Inr (JStr s)"
      "s \<in> {''failed'', ''cancelled'', ''expired''}"
    and m: "opt_prop (opt_prop (parse_body t) ''last_error'') ''message'' = m"
  shows "(\<exists>e. waitForRunComplete env tid runId log
              = (Inl e, log @ replicate (Suc k) (getRun_request env ts rs)))
       \<and> (\<forall>txt. m = JStr txt \<and> txt \<noteq> [] \<longrightarrow>
            waitForRunComplete env tid runId log
              = (Inl \<lparr>err_message = txt, err_status = None, err_data = None\<rparr>,
                 log @ replicate (Suc k) (getRun_request env ts rs)))
       \<and> (\<forall>txt. truthy m \<and> ToString m = Inr txt \<longrightarrow>
            waitForRunComplete env tid runId log
              = (Inl \<lparr>err_message = txt, err_status = None, err_data = None\<rparr>,
                 log @ replicate (Suc k) (getRun_request env ts rs)))
       \<and> (\<not> truthy m \<longrightarrow>
            waitForRunComplete env tid runId log
              = (Inl \<lparr>err_message = ''Run '' @ s, err_status = None, err_data = None\<rparr>,
                 log @ replicate (Suc k) (getRun_request env ts rs)))"
proof -
  let ?req = "getRun_request env ts rs"
  let ?log = "log @ replicate k ?req"
  have start: "waitForRunComplete env tid runId log = waitForRunComplete_from env tid runId k ?log"
    unfolding waitForRunComplete_def
    using poll_pending_steps [OF ts rs pending, of 0] k by simp
  have run: "getRun env tid runId ?log = (Inr (parse_body t), log @ replicate (Suc k) ?req)"
    using getRun_eval [OF ts rs] final by (simp add: status_fetch_def replicate_append_same)
  have "waitForRunComplete_from env tid runId k ?log
      = (case poll_step (parse_body t) of
           Inl e \<Rightarrow> (Inl e, log @ replicate (Suc k) ?req)
         | Inr (Some r) \<Rightarrow> (Inr r, log @ replicate (Suc k) ?req)
         | Inr None \<Rightarrow> waitForRunComplete_from env tid runId (k + 1) (log @ replicate (Suc k) ?req))"
    using k run
    by (subst waitForRunComplete_from.simps) (simp split: sum.splits option.splits)
  with start have wait: "waitForRunComplete env tid runId log
      = (case poll_step (parse_body t) of
           Inl e \<Rightarrow> (Inl e, log @ replicate (Suc k) ?req)
         | Inr (Some r) \<Rightarrow> (Inr r, log @ replicate (Suc k) ?req)
         | Inr None \<Rightarrow> waitForRunComplete_from env tid runId (k + 1) (log @ replicate (Suc k) ?req))"
    by simp
  have step: "poll_step (parse_body t)
      = (if truthy m then throw_new_Error m else throw_new_Error (JStr (''Run '' @ s)))"
    using status m by (auto simp: poll_step_def Let_def)
  show ?thesis
    unfolding wait step
    by (auto simp: throw_new_Error_eq plain_error_def split: sum.splits)
qed

theorem poller_fails_on_terminal_status_witness:
  "waitForRunComplete failing_env (JStr ''thread_1'') (JStr ''run_1'') []
     = (Inl \<lparr>err_message = ''boom'', err_status = None, err_data = None\<rparr>,
        replicate (Suc 0) (getRun_request failing_env ''thread_1'' ''run_1''))"
proof -
  let ?req = "getRun_request failing_env ''thread_1'' ''run_1''"
  let ?run = "JObj [(''id'', JStr ''run_1''), (''status'', JStr ''failed''),
                 (''last_error'', JObj [(''code'', JStr ''server_error''),
                                        (''message'', JStr ''boom'')])]"
  have ts: "ToString (JStr ''thread_1'') = Inr ''thread_1''"
    and rs: "ToString (JStr ''run_1'') = Inr ''run_1''"
    by simp_all
  have k: "(0::nat) < 40"
    by simp
  have pending: "\<forall>j<0. pending_answer (status_fetch failing_env [] ?req j)"
    by simp
  have final: "status_fetch failing_env [] ?req 0 = Response 200 (Json ?run)" "res_ok 200"
    by (simp_all add: status_fetch_def failing_env_def stub_env_def scripted_def res_ok_numerals)
  have status: "get_prop (parse_body (Json ?run)) ''status'' = Inr (JStr ''failed'')"
      "''failed'' \<in> {''failed'', ''cancelled'', ''expired''}"
    by (simp_all add: parse_body_def)
  have m: "opt_prop (opt_prop (parse_body (Json ?run)) ''last_error'') ''message'' = JStr ''boom''"
    by (simp add: parse_body_def)
  show ?thesis
    using poller_fails_on_terminal_status [OF ts rs k pending final status m]
    by simp
qed

text \<open>
  The claim as stated fails on an error message that is present but empty: the run
  below carries \<^verbatim>\<open>last_error.message = ""\<close>, and the thrown message is the generic
  one, not the upstream's.
\<close>

theorem empty_last_error_message_counterexample:
  "opt_prop (opt_prop empty_message_run ''last_error'') ''message'' = JStr []
   \<and> waitForRunComplete (stub_env [Response 200 (Json empty_message_run)])
         (JStr ''thread_1'') (JStr ''run_1'') []
       = (Inl \<lparr>err_message = ''Run failed'', err_status = None, err_data = None\<rparr>,
          [getRun_request (stub_env [Response 200 (Json empty_message_run)])
             ''thread_1'' ''run_1''])"
  by (simp add: empty_message_run_def waitForRunComplete_def waitForRunComplete_from.simps
      getRun_def getRun_request_def poll_step_def throw_new_Error_def new_Error_def
      plain_error_def or_js_def stub_simps)

section \<open>The error contract of the upstream client\<close>

text \<open>
  Claim C7, as amended. When the upstream answers a request with a status outside 200
  to 299, \<^verbatim>\<open>openAI\<close> throws after that one request. If the parsed payload's
  \<^verbatim>\<open>error.message\<close> is a non-empty string, that string is the error's message (in
  general, a truthy value's string conversion is); if it is absent, empty or otherwise
  falsy, the message is \<^verbatim>\<open>OpenAI request failed (<status>)\<close>. In both cases the
  error carries the status and the whole parsed payload.
\<close>

theorem openAI_error_contract:
  assumes resp: "upstream env log (openAI_request env path method body beta) = Response st t"
    and bad: "\<not> res_ok st"
    and m: "opt_prop (opt_prop (parse_body t) ''error'') ''message'' = m"
  shows "(\<forall>txt. m = JStr txt \<and> txt \<noteq> [] \<longrightarrow>
            openAI env path method body beta log
              = (Inl \<lparr>err_message = txt, err_status = Some (unat st), err_data = Some (parse_body t)\<rparr>,
                 log @ [openAI_request env path method body beta]))
       \<and> (\<forall>txt. truthy m \<and> ToString m = Inr txt \<longrightarrow>
            openAI env path method body beta log
              = (Inl \<lparr>err_message = txt, err_status = Some (unat st), err_data = Some (parse_body t)\<rparr>,
                 log @ [openAI_request env path method body beta]))
       \<and> (\<not> truthy m \<longrightarrow>
            openAI env path method body beta log
              = (Inl \<lparr>err_message = ''OpenAI request failed ('' @ show_nat (unat st) @ '')'',
                      err_status = Some (unat st), err_data = Some (parse_body t)\<rparr>,
                 log @ [openAI_request env path method body beta]))
       \<and> (\<exists>e. openAI env path method body beta log
              = (Inl e, log @ [openAI_request env path method body beta]))"
  using resp bad m
  by (auto simp: openAI_def Let_def or_js_def new_Error_def plain_error_def split: sum.splits)

theorem openAI_error_contract_witness:
  "createThread rejected_key_env []
     = (Inl \<lparr>err_message = ''Incorrect API key provided'', err_status = Some 401,
             err_data = Some (JObj [(''error'',
                JObj [(''message'', JStr ''Incorrect API key provided''),
                      (''type'', JStr ''invalid_request_error'')])])\<rparr>,
        [createThread_request rejected_key_env])"
proof -
  let ?payload = "JObj [(''error'',
        JObj [(''message'', JStr ''Incorrect API key provided''),
              (''type'', JStr ''invalid_request_error'')])]"
  have resp: "upstream rejected_key_env []
       (openAI_request rejected_key_env ''/threads'' ''POST'' (Some (JObj [])) True)
      = Response 401 (Json ?payload)"
    by (simp add: rejected_key_env_def stub_env_def scripted_def)
  have bad: "\<not> res_ok 401"
    by (simp add: res_ok_numerals)
  have m: "opt_prop (opt_prop (parse_body (Json ?payload)) ''error'') ''message''
      = JStr ''Incorrect API key provided''"
    by (simp add: parse_body_def)
  show ?thesis
    using openAI_error_contract [OF resp bad m]
    by (simp add: createThread_def createThread_request_def parse_body_def)
qed

text \<open>
  The claim as stated fails on an \<^verbatim>\<open>error.message\<close> that is present but empty: the
  thrown message is the generic one.
\<close>

theorem empty_error_message_counterexample:
  "opt_prop (opt_prop (JObj [(''error'', JObj [(''message'', JStr [])])]) ''error'') ''message''
     = JStr []
   \<and> createThread empty_error_env []
     = (Inl \<lparr>err_message = ''OpenAI request failed (500)'', err_status = Some 500,
             err_data = Some (JObj [(''error'', JObj [(''message'', JStr [])])])\<rparr>,
        [createThread_request empty_error_env])"
  by (simp add: createThread_def createThread_request_def empty_error_env_def stub_simps
      or_js_def new_Error_def plain_error_def show_nat.simps)

section \<open>Failure responses of the routes\<close>

text \<open>
  Claim C8, as amended. Every failure \<open>e\<close> raised in the \<^verbatim>\<open>try\<close> block of
  \<^verbatim>\<open>/chat/send\<close> is answered with the body \<^verbatim>\<open>{ error: e.message, details: e.data }\<close>
  (\<^verbatim>\<open>details\<close> is \<^verbatim>\<open>undefined\<close> when the failure carries no payload) and with the
  status the failure carries when it carries a non-zero one, else 500. Every failure
  raised in \<^verbatim>\<open>/chat/start\<close> is answered with the same body and with status 500,
  whatever status the failure carries.
\<close>

theorem route_failure_response:
  assumes msg: "get_prop body ''message'' = Inr (JStr msg)" "msg \<noteq> []"
    and thr: "get_prop body ''threadId'' = Inr threadId"
  shows "(\<forall>e l. chat_send_try env threadId (JStr msg) log = (Inl e, l) \<longrightarrow>
            chat_send env body log
              = (\<lparr>res_status = (case err_status e of
                                   None \<Rightarrow> 500
                                 | Some s \<Rightarrow> if s = 0 then 500 else s),
                  res_body = JObj [(''error'', JStr (err_message e)),
                                   (''details'', (case err_data e of
                                                    None \<Rightarrow> JUndefined
                                                  | Some d \<Rightarrow> d))]\<rparr>, l))
       \<and> (\<forall>e l. new_thread_id env log = (Inl e, l) \<longrightarrow>
            chat_start env log
              = (\<lparr>res_status = 500,
                  res_body = JObj [(''error'', JStr (err_message e)),
                                   (''details'', (case err_data e of
                                                    None \<Rightarrow> JUndefined
                                                  | Some d \<Rightarrow> d))]\<rparr>, l))"
  unfolding chat_send_valid [OF msg thr]
  by (simp add: chat_start_def status_or_500_def error_body_def)

theorem route_failure_response_witness:
  "chat_send missing_thread_env reuse_body []
     = (\<lparr>res_status = 404,
         res_body = JObj [(''error'', JStr ''No thread found with id t1''),
                          (''details'', JObj [(''error'',
                              JObj [(''message'', JStr ''No thread found with id t1'')])])]\<rparr>,
        [addUserMessage_request missing_thread_env ''t1'' (JStr ''hi'')])"
proof -
  let ?payload = "JObj [(''error'', JObj [(''message'', JStr ''No thread found with id t1'')])]"
  have msg: "get_prop reuse_body ''message'' = Inr (JStr ''hi'')" "''hi'' \<noteq> []"
    and thr: "get_prop reuse_body ''threadId'' = Inr (JStr ''t1'')"
    by (simp_all add: reuse_body_def)
  have "chat_send_try missing_thread_env (JStr ''t1'') (JStr ''hi'') []
      = (Inl \<lparr>err_message = ''No thread found with id t1'', err_status = Some 404,
              err_data = Some ?payload\<rparr>,
         [addUserMessage_request missing_thread_env ''t1'' (JStr ''hi'')])"
    by (simp add: chat_send_try_def resolve_thread_def addUserMessage_def
        addUserMessage_request_def missing_thread_env_def stub_simps or_js_def new_Error_def
        plain_error_def)
  then show ?thesis
    using route_failure_response [OF msg thr, of missing_thread_env "[]"]
    by simp
qed

text \<open>
  The claim as stated fails for \<^verbatim>\<open>/chat/start\<close>: the upstream rejects the thread
  creation with 401, the failure carries 401, and the route answers 500.
\<close>

theorem chat_start_status_counterexample:
  "new_thread_id rejected_key_env []
     = (Inl \<lparr>err_message = ''Incorrect API key provided'', err_status = Some 401,
             err_data = Some (JObj [(''error'',
                JObj [(''message'', JStr ''Incorrect API key provided''),
                      (''type'', JStr ''invalid_request_error'')])])\<rparr>,
        [createThread_request rejected_key_env])
   \<and> res_status (fst (chat_start rejected_key_env [])) = 500"
  by (simp add: chat_start_def new_thread_id_def createThread_def createThread_request_def
      rejected_key_env_def stub_simps or_js_def new_Error_def plain_error_def)

section \<open>Thread creation comes first\<close>

text \<open>Every operation only appends to the list of requests sent.\<close>

lemma bind_io_grows:
  assumes "\<And>log. \<exists>cs. snd (m log) = log @ cs"
    and "\<And>x log. \<exists>cs. snd (f x log) = log @ cs"
  shows "\<exists>cs. snd (bind_io m f log) = log @ cs"
proof -
  obtain r l where ml: "m log = (r, l)"
    by (cases "m log")
  from assms(1) [of log] ml obtain cs where l: "l = log @ cs"
    by auto
  show ?thesis
  proof (cases r)
    case (Inl e)
    with ml l show ?thesis by (simp add: bind_io_def)
  next
    case (Inr x)
    from assms(2) [of x l] obtain ds where "snd (f x l) = l @ ds"
      by blast
    with Inr ml l show ?thesis by (simp add: bind_io_def)
  qed
qed

lemma lift_io_grows: "\<exists>cs. snd (lift_io r log) = log @ cs"
  by simp

lemma return_io_grows: "\<exists>cs. snd (return_io x log) = log @ cs"
  by simp

lemma openAI_grows: "\<exists>cs. snd (openAI env path method body beta log) = log @ cs"
  by (simp add: openAI_log)

lemma getRun_grows: "\<exists>cs. snd (getRun env tid rid log) = log @ cs"
  unfolding getRun_def
  by (intro bind_io_grows lift_io_grows openAI_grows)

lemma waitForRunComplete_from_grows:
  "\<exists>cs. snd (waitForRunComplete_from env tid rid i log) = log @ cs"
proof (induction env tid rid i log rule: waitForRunComplete_from.induct)
  case (1 env tid rid i log)
  obtain r l where g: "getRun env tid rid log = (r, l)"
    by (cases "getRun env tid rid log")
  with getRun_grows [of env tid rid log] obtain cs where l: "l = log @ cs"
    by auto
  show ?case
  proof (cases "i < 40")
    case False
    then show ?thesis
      by (subst waitForRunComplete_from.simps) simp
  next
    case True
    show ?thesis
    proof (cases r)
      case (Inl e)
      with True g l show ?thesis
        by (subst waitForRunComplete_from.simps) simp
    next
      case (Inr run)
      show ?thesis
      proof (cases "poll_step run")
        case (Inl e)
        with True g l Inr show ?thesis
          by (subst waitForRunComplete_from.simps) simp
      next
        case step: (Inr res)
        show ?thesis
        proof (cases res)
          case None
          from "1.IH" [OF True g [unfolded Inr, symmetric] refl step [unfolded None]]
          obtain ds where "snd (waitForRunComplete_from env tid rid (i + 1) l) = l @ ds"
            by blast
          with True g l Inr step None show ?thesis
            by (subst waitForRunComplete_from.simps) simp
        next
          case (Some r')
          with True g l Inr step show ?thesis
            by (subst waitForRunComplete_from.simps) simp
        qed
      qed
    qed
  qed
qed

lemma waitForRunComplete_grows:
  "\<exists>cs. snd (waitForRunComplete env tid rid log) = log @ cs"
  unfolding waitForRunComplete_def by (rule waitForRunComplete_from_grows)

lemma addUserMessage_grows: "\<exists>cs. snd (addUserMessage env tid msg log) = log @ cs"
  unfolding addUserMessage_def
  by (intro bind_io_grows lift_io_grows openAI_grows)

lemma createRun_grows: "\<exists>cs. snd (createRun env tid log) = log @ cs"
  unfolding createRun_def
  by (intro bind_io_grows lift_io_grows openAI_grows)

lemma listMessages_grows: "\<exists>cs. snd (listMessages env tid limit log) = log @ cs"
  unfolding listMessages_def
  by (intro bind_io_grows lift_io_grows openAI_grows)

lemma new_thread_id_log:
  "snd (new_thread_id env log) = log @ [createThread_request env]"
  using createThread_log [of env log]
  by (auto simp: new_thread_id_def bind_io_def split: prod.splits sum.splits)

lemma chat_send_try_InrE:
  assumes "chat_send_try env threadId message log = (Inr res, l)"
  obtains tid l1 a l2 run l3 runId r l4 msgs reply where
    "resolve_thread env threadId log = (Inr tid, l1)"
    "addUserMessage env tid message l1 = (Inr a, l2)"
    "createRun env tid l2 = (Inr run, l3)"
    "get_prop run ''id'' = Inr runId"
    "waitForRunComplete env tid runId l3 = (Inr r, l4)"
    "listMessages env tid 20 l4 = (Inr msgs, l)"
    "extractLatestAssistantText msgs = Inr reply"
    "res = \<lparr>res_status = 200,
            res_body = JObj [(''threadId'', tid), (''reply'', or_js reply (JStr []))]\<rparr>"
  using assms unfolding chat_send_try_def
  by (elim bind_io_InrE) auto

lemma addUserMessage_InrE:
  assumes "addUserMessage env tid msg log = (Inr a, l)"
  obtains ts where "ToString tid = Inr ts" and "l = log @ [addUserMessage_request env ts msg]"
proof -
  from assms obtain ts l' where ts: "lift_io (ToString tid) log = (Inr ts, l')"
    unfolding addUserMessage_def by (elim bind_io_InrE)
  then have "ToString tid = Inr ts" by simp
  with addUserMessage_InrD [OF assms] that show thesis by blast
qed

lemma after_thread_grows:
  "\<exists>cs. snd (bind_io (addUserMessage env tid message) (\<lambda>_.
     bind_io (createRun env tid) (\<lambda>run.
     bind_io (lift_io (get_prop run ''id'')) (\<lambda>runId.
     bind_io (waitForRunComplete env tid runId) (\<lambda>_.
     bind_io (listMessages env tid 20) (\<lambda>msgs.
     bind_io (lift_io (extractLatestAssistantText msgs)) (\<lambda>reply.
       return_io \<lparr>res_status = 200,
                  res_body = JObj [(''threadId'', tid), (''reply'', or_js reply (JStr []))]\<rparr>))))))
       log) = log @ cs"
  by (intro bind_io_grows addUserMessage_grows createRun_grows lift_io_grows
      waitForRunComplete_grows listMessages_grows return_io_grows)

lemma not_string_resolve:
  "typeof_js threadId \<noteq> ''string'' \<Longrightarrow> resolve_thread env threadId = new_thread_id env"
  by (simp add: resolve_thread_def)

lemma chat_send_try_first_call:
  assumes "typeof_js threadId \<noteq> ''string''"
  shows "\<exists>rest. snd (chat_send_try env threadId message log)
           = log @ createThread_request env # rest"
proof -
  obtain r l where n: "new_thread_id env log = (r, l)"
    by (cases "new_thread_id env log")
  with new_thread_id_log [of env log] have l: "l = log @ [createThread_request env]"
    by simp
  show ?thesis
  proof (cases r)
    case (Inl e)
    with n l show ?thesis
      by (simp add: chat_send_try_def not_string_resolve [OF assms] bind_io_def)
  next
    case (Inr tid)
    obtain cs where "snd (bind_io (addUserMessage env tid message) (\<lambda>_.
     bind_io (createRun env tid) (\<lambda>run.
     bind_io (lift_io (get_prop run ''id'')) (\<lambda>runId.
     bind_io (waitForRunComplete env tid runId) (\<lambda>_.
     bind_io (listMessages env tid 20) (\<lambda>msgs.
     bind_io (lift_io (extractLatestAssistantText msgs)) (\<lambda>reply.
       return_io \<lparr>res_status = 200,
                  res_body = JObj [(''threadId'', tid), (''reply'', or_js reply (JStr []))]\<rparr>))))))
       l) = l @ cs"
      using after_thread_grows [of env tid message l] by blast
    with n l Inr show ?thesis
      unfolding chat_send_try_def not_string_resolve [OF assms]
      by (simp add: bind_io_Inr [where m = "new_thread_id env", OF n [unfolded Inr]])
  qed
qed

lemma openAI_InrD:
  assumes "openAI env path method body beta log = (Inr d, l)"
  shows "\<exists>st t. upstream env log (openAI_request env path method body beta) = Response st t
           \<and> res_ok st \<and> d = parse_body t
           \<and> l = log @ [openAI_request env path method body beta]"
  using assms
  by (auto simp: openAI_def Let_def split: fetch_result.splits sum.splits if_splits)

text \<open>A new thread's id is the \<^verbatim>\<open>id\<close> of what the upstream answered to the creation.\<close>

lemma new_thread_id_answer:
  assumes "new_thread_id env log = (Inr tid, l)"
  shows "\<exists>st t. upstream env log (createThread_request env) = Response st t \<and> res_ok st
           \<and> get_prop (parse_body t) ''id'' = Inr tid \<and> l = log @ [createThread_request env]"
proof -
  from assms obtain thread l' where
    c: "createThread env log = (Inr thread, l')"
    and g: "lift_io (get_prop thread ''id'') l' = (Inr tid, l)"
    unfolding new_thread_id_def by (elim bind_io_InrE)
  from c obtain st t where
    "upstream env log (createThread_request env) = Response st t" "res_ok st"
    "thread = parse_body t" "l' = log @ [createThread_request env]"
    unfolding createThread_def createThread_request_def
    using openAI_InrD by blast
  with g show ?thesis by auto
qed

text \<open>
  Claim C1. Let the request body carry a non-empty string \<^verbatim>\<open>message\<close> and a
  \<^verbatim>\<open>threadId\<close> that is absent or not a string. Then the first request
  \<^verbatim>\<open>/chat/send\<close> sends is the thread creation, so no append precedes it; and when the
  route answers with the success body \<^verbatim>\<open>{ threadId, reply }\<close>, the status is 200, the
  upstream answered the creation in the success range, that \<^verbatim>\<open>threadId\<close> is the
  \<^verbatim>\<open>id\<close> of the payload it answered with, and the second request is the append of
  the message to that thread.
\<close>

theorem send_without_thread_creates_first:
  assumes msg: "get_prop body ''message'' = Inr (JStr msg)" "msg \<noteq> []"
    and thr: "get_prop body ''threadId'' = Inr threadId"
    and nostr: "typeof_js threadId \<noteq> ''string''"
  shows "(\<exists>rest. snd (chat_send env body log) = log @ createThread_request env # rest)
       \<and> (\<forall>tid reply.
            res_body (fst (chat_send env body log)) = JObj [(''threadId'', tid), (''reply'', reply)]
            \<longrightarrow> (\<exists>st t ts rest.
                  upstream env log (createThread_request env) = Response st t
                  \<and> res_ok st
                  \<and> get_prop (parse_body t) ''id'' = Inr tid
                  \<and> ToString tid = Inr ts
                  \<and> res_status (fst (chat_send env body log)) = 200
                  \<and> snd (chat_send env body log)
                      = log @ createThread_request env
                          # addUserMessage_request env ts (JStr msg) # rest))"
proof (intro conjI allI impI)
  have snd_eq: "snd (chat_send env body log) = snd (chat_send_try env threadId (JStr msg) log)"
    unfolding chat_send_valid [OF msg thr] by (rule snd_catch)
  show "\<exists>rest. snd (chat_send env body log) = log @ createThread_request env # rest"
    unfolding snd_eq using nostr by (rule chat_send_try_first_call)
  fix tid reply
  assume ok: "res_body (fst (chat_send env body log))
                = JObj [(''threadId'', tid), (''reply'', reply)]"
  obtain r l where attempt: "chat_send_try env threadId (JStr msg) log = (r, l)"
    by (cases "chat_send_try env threadId (JStr msg) log")
  from ok attempt obtain res where r: "r = Inr res" and res: "fst (chat_send env body log) = res"
    unfolding chat_send_valid [OF msg thr]
    by (cases r) (simp_all add: error_body_def)
  from attempt r obtain tid' l1 a l2 run l3 runId p l4 msgs rep where
    steps: "resolve_thread env threadId log = (Inr tid', l1)"
      "addUserMessage env tid' (JStr msg) l1 = (Inr a, l2)"
      "createRun env tid' l2 = (Inr run, l3)"
      "waitForRunComplete env tid' runId l3 = (Inr p, l4)"
      "listMessages env tid' 20 l4 = (Inr msgs, l)"
    and shape: "res = \<lparr>res_status = 200,
            res_body = JObj [(''threadId'', tid'), (''reply'', or_js rep (JStr []))]\<rparr>"
    by (auto elim: chat_send_try_InrE)
  from ok res shape have tid: "tid' = tid"
    by simp
  from steps(1) obtain st t where
    answer: "upstream env log (createThread_request env) = Response st t" "res_ok st"
      "get_prop (parse_body t) ''id'' = Inr tid" "l1 = log @ [createThread_request env]"
    unfolding not_string_resolve [OF nostr] tid
    using new_thread_id_answer by blast
  from steps(2) obtain ts where
    ts: "ToString tid = Inr ts" "l2 = l1 @ [addUserMessage_request env ts (JStr msg)]"
    unfolding tid by (elim addUserMessage_InrE)
  from createRun_grows [of env tid' l2] steps(3) obtain c3 where "l3 = l2 @ c3"
    by auto
  moreover from waitForRunComplete_grows [of env tid' runId l3] steps(4)
  obtain c4 where "l4 = l3 @ c4"
    by auto
  moreover from listMessages_grows [of env tid' 20 l4] steps(5) obtain c5 where "l = l4 @ c5"
    by auto
  ultimately have "l = log @ createThread_request env
                          # addUserMessage_request env ts (JStr msg) # (c3 @ c4 @ c5)"
    using answer(4) ts(2) by simp
  moreover have "snd (chat_send env body log) = l"
    using snd_eq attempt by simp
  moreover have "res_status (fst (chat_send env body log)) = 200"
    using res shape by simp
  ultimately show "\<exists>st t ts rest.
                  upstream env log (createThread_request env) = Response st t
                  \<and> res_ok st
                  \<and> get_prop (parse_body t) ''id'' = Inr tid
                  \<and> ToString tid = Inr ts
                  \<and> res_status (fst (chat_send env body log)) = 200
                  \<and> snd (chat_send env body log)
                      = log @ createThread_request env
                          # addUserMessage_request env ts (JStr msg) # rest"
    using answer(1,2,3) ts(1) by blast
qed

text \<open>A whole conversation against the scripted upstream that completes on the third poll.\<close>

lemma completing_run:
  "chat_send completing_env hi_body []
     = (\<lparr>res_status = 200,
         res_body = JObj [(''threadId'', JStr ''thread_1''), (''reply'', JStr ''hello'')]\<rparr>,
        opening_requests completing_env
          @ replicate 3 (getRun_request completing_env ''thread_1'' ''run_1'')
          @ [listMessages_request completing_env ''thread_1'' 20])"
  by (simp add: chat_send_def chat_send_try_def hi_body_def resolve_thread_def new_thread_id_def
      createThread_def createThread_request_def addUserMessage_def addUserMessage_request_def
      createRun_def createRun_request_def getRun_def getRun_request_def listMessages_def
      listMessages_request_def waitForRunComplete_def waitForRunComplete_from.simps
      poll_step_def extractLatestAssistantText_def is_assistant_def is_text_block_def
      hello_messages_def nullish_coalesce_def nullish_def or_js_def opening_requests_def
      completing_env_def stub_simps numeral_3_eq_3)

theorem send_without_thread_creates_first_witness:
  "res_body (fst (chat_send completing_env hi_body []))
     = JObj [(''threadId'', JStr ''thread_1''), (''reply'', JStr ''hello'')]
   \<and> (\<exists>st t ts rest.
         upstream completing_env [] (createThread_request completing_env) = Response st t
         \<and> res_ok st
         \<and> get_prop (parse_body t) ''id'' = Inr (JStr ''thread_1'')
         \<and> ToString (JStr ''thread_1'') = Inr ts
         \<and> res_status (fst (chat_send completing_env hi_body [])) = 200
         \<and> snd (chat_send completing_env hi_body [])
             = [] @ createThread_request completing_env
                 # addUserMessage_request completing_env ts (JStr ''hi'') # rest)"
proof -
  have msg: "get_prop hi_body ''message'' = Inr (JStr ''hi'')" "''hi'' \<noteq> []"
    and thr: "get_prop hi_body ''threadId'' = Inr JUndefined"
    and nostr: "typeof_js JUndefined \<noteq> ''string''"
    by (simp_all add: hi_body_def)
  have ok: "res_body (fst (chat_send completing_env hi_body []))
     = JObj [(''threadId'', JStr ''thread_1''), (''reply'', JStr ''hello'')]"
    by (simp add: completing_run)
  with send_without_thread_creates_first [OF msg thr nostr, of completing_env "[]"]
  show ?thesis
    by blast
qed

section \<open>Reply extraction\<close>

lemma get_prop_opt_prop: "\<not> nullish v \<Longrightarrow> get_prop v k = Inr (opt_prop v k)"
  by (cases v) (simp_all add: nullish_def)

lemma is_assistant_eq: "\<not> nullish m \<Longrightarrow> is_assistant m = Inr (JBool (assistant_entry m))"
  by (simp add: is_assistant_def assistant_entry_def get_prop_opt_prop)

lemma is_text_block_eq:
  "\<not> nullish b \<Longrightarrow> \<exists>r. is_text_block b = Inr r \<and> (truthy r \<longleftrightarrow> text_block b)"
  by (cases b) (auto simp: is_text_block_def text_block_def text_value_def nullish_def)



text \<open>
  A scan that meets no \<^verbatim>\<open>null\<close> returns the first match, or \<^verbatim>\<open>undefined\<close>; a
  scan that meets one throws.
\<close>

lemma find_js_scan:
  assumes "\<And>x. \<not> nullish x \<Longrightarrow> \<exists>r. p x = Inr r \<and> (truthy r \<longleftrightarrow> P x)"
  shows "no_null_before P xs \<Longrightarrow>
         find_js p xs = Inr (case List.find P xs of None \<Rightarrow> JUndefined | Some x \<Rightarrow> x)"
proof (induction xs)
  case Nil
  then show ?case by simp
next
  case (Cons x xs)
  then have "\<not> nullish x" by simp
  with assms obtain r where r: "p x = Inr r" "truthy r \<longleftrightarrow> P x"
    by blast
  show ?case
  proof (cases "P x")
    case True
    with r show ?thesis by simp
  next
    case False
    with Cons.prems have "no_null_before P xs" by simp
    with Cons.IH r False show ?thesis by simp
  qed
qed


lemma is_assistant_total:
  "\<not> nullish m \<Longrightarrow> \<exists>r. is_assistant m = Inr r \<and> (truthy r \<longleftrightarrow> assistant_entry m)"
  by (simp add: is_assistant_eq)

lemma assistant_entry_truthy: "assistant_entry m \<Longrightarrow> truthy m \<and> \<not> nullish m"
  by (cases m) (simp_all add: assistant_entry_def nullish_def)

lemma text_block_value: "text_block b \<Longrightarrow> nullish_coalesce (text_value b) JNull = text_value b"
  by (cases "text_value b") (simp_all add: text_block_def nullish_coalesce_def nullish_def)

text \<open>Extraction once the scan has settled on the entry \<open>m\<close>.\<close>

lemma extract_selected:
  assumes "find_js is_assistant (entries_of messagesList) = Inr m" and "assistant_entry m"
  shows "extractLatestAssistantText messagesList =
           (case find_js is_text_block (blocks_of m) of
              Inl e \<Rightarrow> Inl e
            | Inr textBlock \<Rightarrow> Inr (nullish_coalesce (text_value textBlock) JNull))"
  using assms assistant_entry_truthy [OF assms(2)]
  by (simp add: extractLatestAssistantText_def entries_of_def [symmetric] blocks_of_def
      text_value_def get_prop_opt_prop split: sum.splits)

lemma extract_no_assistant:
  assumes "find_js is_assistant (entries_of messagesList) = Inr JUndefined"
  shows "extractLatestAssistantText messagesList = Inr JNull"
  using assms by (simp add: extractLatestAssistantText_def entries_of_def [symmetric])

text \<open>What the extractor returns when its scans meet no \<^verbatim>\<open>null\<close>.\<close>

lemma extract_on_clean_scan:
  assumes "scan_meets_no_null messagesList"
  shows "extractLatestAssistantText messagesList =
           Inr (case List.find assistant_entry (entries_of messagesList) of
                  None \<Rightarrow> JNull
                | Some m \<Rightarrow>
                    (case List.find text_block (blocks_of m) of
                       None \<Rightarrow> JNull
                     | Some b \<Rightarrow> text_value b))"
proof -
  from assms have entries: "no_null_before assistant_entry (entries_of messagesList)"
    by (simp add: scan_meets_no_null_def)
  have found: "find_js is_assistant (entries_of messagesList)
      = Inr (case List.find assistant_entry (entries_of messagesList) of
               None \<Rightarrow> JUndefined | Some m \<Rightarrow> m)"
    using is_assistant_total entries by (rule find_js_scan)
  show ?thesis
  proof (cases "List.find assistant_entry (entries_of messagesList)")
    case None
    with found show ?thesis by (simp add: extract_no_assistant)
  next
    case (Some m)
    then have am: "assistant_entry m"
      by (auto simp: find_Some_iff)
    from assms Some have blocks: "no_null_before text_block (blocks_of m)"
      by (simp add: scan_meets_no_null_def)
    have scan: "find_js is_text_block (blocks_of m)
      = Inr (case List.find text_block (blocks_of m) of None \<Rightarrow> JUndefined | Some b \<Rightarrow> b)"
      using is_text_block_eq blocks by (rule find_js_scan)
    have sel: "find_js is_assistant (entries_of messagesList) = Inr m"
      using found Some by simp
    show ?thesis
    proof (cases "List.find text_block (blocks_of m)")
      case None
      with scan Some show ?thesis
        by (simp add: extract_selected [OF sel am] text_value_def nullish_coalesce_def
            nullish_def)
    next
      case b: (Some b)
      then have "text_block b"
        by (auto simp: find_Some_iff)
      with scan Some b show ?thesis
        by (simp add: extract_selected [OF sel am] text_block_value)
    qed
  qed
qed


text \<open>
  Claim C6, as amended. For a message list on which the extractor's scans meet no
  \<^verbatim>\<open>null\<close> or \<^verbatim>\<open>undefined\<close> (none among the entries up to the first assistant
  entry, none among that entry's blocks up to its first text block with a non-empty
  value): with no assistant entry the extractor returns \<^verbatim>\<open>null\<close>; otherwise it looks
  only at the first assistant entry in the given order and returns the nested value of
  its first text block with a non-empty value, or \<^verbatim>\<open>null\<close> when it has no such
  block. When \<^verbatim>\<open>/chat/send\<close> has reached the listing and the upstream answers it
  with such a list, the route answers 200 with the thread id and, as \<^verbatim>\<open>reply\<close>, the
  extracted value, or the empty string when the extraction is \<^verbatim>\<open>null\<close>. In particular an assistant message with content
  \<^verbatim>\<open>[{type:"text", text:{value:"hello"}}]\<close> yields \<^verbatim>\<open>"hello"\<close>.
\<close>

theorem reply_extraction:
  assumes clean: "scan_meets_no_null messagesList"
  shows "((\<forall>m\<in>set (entries_of messagesList). \<not> assistant_entry m) \<longrightarrow>
            extractLatestAssistantText messagesList = Inr JNull)
       \<and> (\<forall>i. i < length (entries_of messagesList)
              \<and> assistant_entry (entries_of messagesList ! i)
              \<and> (\<forall>j<i. \<not> assistant_entry (entries_of messagesList ! j)) \<longrightarrow>
            ((\<forall>b\<in>set (blocks_of (entries_of messagesList ! i)). \<not> text_block b) \<longrightarrow>
               extractLatestAssistantText messagesList = Inr JNull)
          \<and> (\<forall>k. k < length (blocks_of (entries_of messagesList ! i))
                  \<and> text_block (blocks_of (entries_of messagesList ! i) ! k)
                  \<and> (\<forall>j<k. \<not> text_block (blocks_of (entries_of messagesList ! i) ! j)) \<longrightarrow>
               extractLatestAssistantText messagesList
                 = Inr (text_value (blocks_of (entries_of messagesList ! i) ! k))))
       \<and> (\<forall>env body msg threadId log0 tid l1 a l2 run l3 runId r l4 ts st t.
            get_prop body ''message'' = Inr (JStr msg) \<and> msg \<noteq> []
            \<and> get_prop body ''threadId'' = Inr threadId
            \<and> resolve_thread env threadId log0 = (Inr tid, l1)
            \<and> addUserMessage env tid (JStr msg) l1 = (Inr a, l2)
            \<and> createRun env tid l2 = (Inr run, l3)
            \<and> get_prop run ''id'' = Inr runId
            \<and> waitForRunComplete env tid runId l3 = (Inr r, l4)
            \<and> ToString tid = Inr ts
            \<and> upstream env l4 (listMessages_request env ts 20) = Response st t
            \<and> res_ok st \<and> parse_body t = messagesList \<longrightarrow>
            (\<exists>reply.
               extractLatestAssistantText messagesList = Inr reply
               \<and> chat_send env body log0
                   = (\<lparr>res_status = 200,
                       res_body = JObj [(''threadId'', tid),
                                        (''reply'', if truthy reply then reply else JStr [])]\<rparr>,
                      l4 @ [listMessages_request env ts 20])
               \<and> (reply = JNull \<longrightarrow>
                    chat_send env body log0
                      = (\<lparr>res_status = 200,
                          res_body = JObj [(''threadId'', tid), (''reply'', JStr [])]\<rparr>,
                         l4 @ [listMessages_request env ts 20]))))"
proof (intro conjI allI impI)
  note ex = extract_on_clean_scan [OF clean]
  {
    assume "\<forall>m\<in>set (entries_of messagesList). \<not> assistant_entry m"
    then have "List.find assistant_entry (entries_of messagesList) = None"
      by (simp add: find_None_iff)
    then show "extractLatestAssistantText messagesList = Inr JNull"
      by (simp add: ex)
  }
  {
    fix i
    let ?m = "entries_of messagesList ! i"
    assume "i < length (entries_of messagesList) \<and> assistant_entry ?m
       \<and> (\<forall>j<i. \<not> assistant_entry (entries_of messagesList ! j))"
    then have sel: "List.find assistant_entry (entries_of messagesList) = Some ?m"
      by (auto simp: find_Some_iff)
    {
      assume "\<forall>b\<in>set (blocks_of ?m). \<not> text_block b"
      then have "List.find text_block (blocks_of ?m) = None"
        by (simp add: find_None_iff)
      with sel show "extractLatestAssistantText messagesList = Inr JNull"
        by (simp add: ex)
    }
    {
      fix k
      assume "k < length (blocks_of ?m) \<and> text_block (blocks_of ?m ! k)
        \<and> (\<forall>j<k. \<not> text_block (blocks_of ?m ! j))"
      then have "List.find text_block (blocks_of ?m) = Some (blocks_of ?m ! k)"
        by (auto simp: find_Some_iff)
      with sel show "extractLatestAssistantText messagesList
                       = Inr (text_value (blocks_of ?m ! k))"
        by (simp add: ex)
    }
  }
  {
    fix env body msg threadId log0 tid l1 a l2 run l3 runId r l4 ts st t
    assume steps: "get_prop body ''message'' = Inr (JStr msg) \<and> msg \<noteq> []
            \<and> get_prop body ''threadId'' = Inr threadId
            \<and> resolve_thread env threadId log0 = (Inr tid, l1)
            \<and> addUserMessage env tid (JStr msg) l1 = (Inr a, l2)
            \<and> createRun env tid l2 = (Inr run, l3)
            \<and> get_prop run ''id'' = Inr runId
            \<and> waitForRunComplete env tid runId l3 = (Inr r, l4)
            \<and> ToString tid = Inr ts
            \<and> upstream env l4 (listMessages_request env ts 20) = Response st t
            \<and> res_ok st \<and> parse_body t = messagesList"
    let ?l5 = "l4 @ [listMessages_request env ts 20]"
    have listed: "listMessages env tid 20 l4 = (Inr messagesList, ?l5)"
      using steps openAI_ok [of env l4 "''/threads/'' @ ts @ ''/messages?limit='' @ show_nat 20"
          "''GET''" None True st t]
      by (simp add: listMessages_def listMessages_request_def bind_io_def)
    from ex obtain reply where reply: "extractLatestAssistantText messagesList = Inr reply"
      by blast
    have valid: "chat_send env body log0 =
           (case chat_send_try env threadId (JStr msg) log0 of
              (Inr res, log') \<Rightarrow> (res, log')
            | (Inl e, log') \<Rightarrow> (\<lparr>res_status = status_or_500 e, res_body = error_body e\<rparr>, log'))"
      using steps by (intro chat_send_valid) simp_all
    have "chat_send_try env threadId (JStr msg) log0
            = (Inr \<lparr>res_status = 200,
                   res_body = JObj [(''threadId'', tid), (''reply'', or_js reply (JStr []))]\<rparr>,
               ?l5)"
      using steps listed reply by (simp add: chat_send_try_def bind_io_def)
    then have "chat_send env body log0
                   = (\<lparr>res_status = 200,
                       res_body = JObj [(''threadId'', tid),
                                        (''reply'', if truthy reply then reply else JStr [])]\<rparr>,
                      ?l5)"
      by (simp add: valid or_js_def)
    with reply show "\<exists>reply.
               extractLatestAssistantText messagesList = Inr reply
               \<and> chat_send env body log0
                   = (\<lparr>res_status = 200,
                       res_body = JObj [(''threadId'', tid),
                                        (''reply'', if truthy reply then reply else JStr [])]\<rparr>,
                      l4 @ [listMessages_request env ts 20])
               \<and> (reply = JNull \<longrightarrow>
                    chat_send env body log0
                      = (\<lparr>res_status = 200,
                          res_body = JObj [(''threadId'', tid), (''reply'', JStr [])]\<rparr>,
                         l4 @ [listMessages_request env ts 20]))"
      by auto
  }
qed

lemmas extractor_vocabulary =
  scan_meets_no_null_def entries_of_def blocks_of_def assistant_entry_def text_block_def
  text_value_def nullish_def

theorem reply_extraction_witness:
  "extractLatestAssistantText hello_messages = Inr (JStr ''hello'')
   \<and> extractLatestAssistantText user_only_messages = Inr JNull
   \<and> chat_send silent_env hi_body []
       = (\<lparr>res_status = 200,
           res_body = JObj [(''threadId'', JStr ''thread_1''), (''reply'', JStr [])]\<rparr>,
          opening_requests silent_env
            @ [getRun_request silent_env ''thread_1'' ''run_1'',
               listMessages_request silent_env ''thread_1'' 20])"
proof (intro conjI)
  have clean: "scan_meets_no_null hello_messages"
    by (simp add: extractor_vocabulary hello_messages_def)
  have first: "0 < length (entries_of hello_messages)
              \<and> assistant_entry (entries_of hello_messages ! 0)
              \<and> (\<forall>j<0. \<not> assistant_entry (entries_of hello_messages ! j))"
    by (simp add: extractor_vocabulary hello_messages_def)
  have block: "0 < length (blocks_of (entries_of hello_messages ! 0))
                  \<and> text_block (blocks_of (entries_of hello_messages ! 0) ! 0)
                  \<and> (\<forall>j<0. \<not> text_block (blocks_of (entries_of hello_messages ! 0) ! j))"
    by (simp add: extractor_vocabulary hello_messages_def)
  have "extractLatestAssistantText hello_messages
          = Inr (text_value (blocks_of (entries_of hello_messages ! 0) ! 0))"
    using reply_extraction [OF clean] first block by blast
  then show "extractLatestAssistantText hello_messages = Inr (JStr ''hello'')"
    by (simp add: extractor_vocabulary hello_messages_def)
next
  have clean: "scan_meets_no_null user_only_messages"
    by (simp add: extractor_vocabulary user_only_messages_def)
  have none: "\<forall>m\<in>set (entries_of user_only_messages). \<not> assistant_entry m"
    by (simp add: extractor_vocabulary user_only_messages_def)
  show null: "extractLatestAssistantText user_only_messages = Inr JNull"
    using reply_extraction [OF clean] none by blast
  let ?env = silent_env
  let ?l3 = "opening_requests ?env"
  let ?l4 = "?l3 @ [getRun_request ?env ''thread_1'' ''run_1'']"
  let ?l5 = "?l4 @ [listMessages_request ?env ''thread_1'' 20]"
  let ?done = "JObj [(''id'', JStr ''run_1''), (''status'', JStr ''completed'')]"
  note start = opening_run [of "[run_answer ''completed'', Response 200 (Json user_only_messages)]",
      folded silent_env_def]
  have steps: "get_prop hi_body ''message'' = Inr (JStr ''hi'') \<and> ''hi'' \<noteq> []
      \<and> get_prop hi_body ''threadId'' = Inr JUndefined
      \<and> resolve_thread ?env JUndefined [] = (Inr (JStr ''thread_1''), [createThread_request ?env])
      \<and> addUserMessage ?env (JStr ''thread_1'') (JStr ''hi'') [createThread_request ?env]
          = (Inr (JObj [(''id'', JStr ''msg_1'')]),
             [createThread_request ?env, addUserMessage_request ?env ''thread_1'' (JStr ''hi'')])
      \<and> createRun ?env (JStr ''thread_1'')
            [createThread_request ?env, addUserMessage_request ?env ''thread_1'' (JStr ''hi'')]
          = (Inr (JObj [(''id'', JStr ''run_1''), (''status'', JStr ''queued'')]), ?l3)
      \<and> get_prop (JObj [(''id'', JStr ''run_1''), (''status'', JStr ''queued'')]) ''id''
          = Inr (JStr ''run_1'')
      \<and> waitForRunComplete ?env (JStr ''thread_1'') (JStr ''run_1'') ?l3 = (Inr ?done, ?l4)
      \<and> ToString (JStr ''thread_1'') = Inr ''thread_1''
      \<and> upstream ?env ?l4 (listMessages_request ?env ''thread_1'' 20)
          = Response 200 (Json user_only_messages)
      \<and> res_ok 200 \<and> parse_body (Json user_only_messages) = user_only_messages"
    using start
    by (simp add: hi_body_def waitForRunComplete_def waitForRunComplete_from.simps getRun_def
        getRun_request_def poll_step_def opening_requests_def silent_env_def stub_simps)
  from reply_extraction [OF clean, THEN conjunct2, THEN conjunct2, rule_format, OF steps]
  obtain reply where
    "extractLatestAssistantText user_only_messages = Inr reply"
    "reply = JNull \<longrightarrow>
       chat_send silent_env hi_body []
         = (\<lparr>res_status = 200,
             res_body = JObj [(''threadId'', JStr ''thread_1''), (''reply'', JStr [])]\<rparr>, ?l5)"
    by blast
  with null show "chat_send silent_env hi_body []
       = (\<lparr>res_status = 200,
           res_body = JObj [(''threadId'', JStr ''thread_1''), (''reply'', JStr [])]\<rparr>,
          opening_requests silent_env
            @ [getRun_request silent_env ''thread_1'' ''run_1'',
               listMessages_request silent_env ''thread_1'' 20])"
    by simp
qed

text \<open>
  The claim as stated fails on a list whose first entry is \<^verbatim>\<open>null\<close>: its first
  assistant entry, the second entry, carries the text \<^verbatim>\<open>"hello"\<close>, yet the scan
  throws a \<^verbatim>\<open>TypeError\<close> on the entry before it.
\<close>

theorem null_before_assistant_counterexample:
  "\<not> assistant_entry (entries_of null_first_messages ! 0)
   \<and> assistant_entry (entries_of null_first_messages ! 1)
   \<and> text_block (blocks_of (entries_of null_first_messages ! 1) ! 0)
   \<and> text_value (blocks_of (entries_of null_first_messages ! 1) ! 0) = JStr ''hello''
   \<and> extractLatestAssistantText null_first_messages
       = Inl \<lparr>err_message = ''Cannot read properties of null (reading '' @ [CHR 39] @ ''role''
                               @ [CHR 39] @ '')'',
              err_status = None, err_data = None\<rparr>"
  by (simp add: extractor_vocabulary null_first_messages_def extractLatestAssistantText_def
      is_assistant_def type_error_read_def plain_error_def)

section \<open>Totality of the extractor\<close>




end
